(* ===== verification/Py_Prelude.thy ===== *)
theory Py_Prelude
  imports Main
begin

text \<open>
  The Python runtime that the builder library relies on, as plain HOL.
  Python values are the datatype \<open>pyval\<close> (None, bool, int, str, list and
  dict, a dict being an ordered association list with string keys, as Python
  dicts keep insertion order).  Python exceptions are the datatype
  \<open>py_error\<close>; a computation that may raise has type \<open>'a result\<close>,
  \<open>Inl\<close> the exception, and \<open>bindE\<close> sequences two of them in the order
  Python evaluates them.  Keyword arguments (\<open>**kwargs\<close>) are an association
  list; \<open>kw_sub\<close> is \<open>kwargs[k]\<close> (raises \<open>KeyError\<close>), \<open>kw_get\<close> is
  \<open>kwargs.get(k)\<close> (returns None), \<open>py_truthy\<close> is Python's truth test,
  \<open>dict_unpack\<close> is the dict display \<open>{**a, **b}\<close> with its
  overwrite-in-place semantics.  The generic lemmas on these, shared by every
  component theory, are collected in \<open>py_simps\<close>.
\<close>

named_theorems py_simps "evaluation rules of the Python runtime model"

section \<open>Values, errors and results\<close>

datatype pyval =
    PNone
  | PBool bool
  | PInt int
  | PStr string
  | PList "pyval list"
  | PDict "(string \<times> pyval) list"

type_synonym pdict = "(string \<times> pyval) list"
type_synonym kwargs = "(string \<times> pyval) list"

datatype py_error = KeyError pyval | IndexError | TypeError

type_synonym 'a result = "py_error + 'a"

definition bindE :: "'a result \<Rightarrow> ('a \<Rightarrow> 'b result) \<Rightarrow> 'b result" where
  "bindE m f = (case m of Inl e \<Rightarrow> Inl e | Inr x \<Rightarrow> f x)"

text \<open>A list comprehension \<open>[f(x) for x in xs]\<close>: left to right, first raise wins.\<close>

fun mapE :: "('a \<Rightarrow> 'b result) \<Rightarrow> 'a list \<Rightarrow> 'b list result" where
  "mapE f [] = Inr []"
| "mapE f (x # xs) = bindE (f x) (\<lambda>y. bindE (mapE f xs) (\<lambda>ys. Inr (y # ys)))"

section \<open>Truth, subscription, iteration\<close>

fun py_truthy :: "pyval \<Rightarrow> bool" where
  "py_truthy PNone = False"
| "py_truthy (PBool b) = b"
| "py_truthy (PInt i) = (i \<noteq> 0)"
| "py_truthy (PStr s) = (s \<noteq> [])"
| "py_truthy (PList xs) = (xs \<noteq> [])"
| "py_truthy (PDict d) = (d \<noteq> [])"

definition kw_sub :: "kwargs \<Rightarrow> string \<Rightarrow> pyval result" where
  "kw_sub kw k = (case map_of kw k of None \<Rightarrow> Inl (KeyError (PStr k)) | Some v \<Rightarrow> Inr v)"

definition kw_get :: "kwargs \<Rightarrow> string \<Rightarrow> pyval" where
  "kw_get kw k = (case map_of kw k of None \<Rightarrow> PNone | Some v \<Rightarrow> v)"

text \<open>\<open>v[k]\<close> for a string key \<open>k\<close>: only a dict can be indexed by a string.\<close>

fun py_getkey :: "pyval \<Rightarrow> string \<Rightarrow> pyval result" where
  "py_getkey (PDict d) k = (case map_of d k of None \<Rightarrow> Inl (KeyError (PStr k)) | Some v \<Rightarrow> Inr v)"
| "py_getkey _ k = Inl TypeError"

text \<open>\<open>v[0]\<close>: a list or a string gives its first element (IndexError when empty);
  a dict looks up the key \<open>0\<close>, which a dict with string keys never has.\<close>

fun py_index0 :: "pyval \<Rightarrow> pyval result" where
  "py_index0 (PList []) = Inl IndexError"
| "py_index0 (PList (x # xs)) = Inr x"
| "py_index0 (PStr []) = Inl IndexError"
| "py_index0 (PStr (c # cs)) = Inr (PStr [c])"
| "py_index0 (PDict d) = Inl (KeyError (PInt 0))"
| "py_index0 _ = Inl TypeError"

text \<open>\<open>for x in v\<close>: lists give their elements, strings their characters, dicts their keys.\<close>

fun py_iter :: "pyval \<Rightarrow> pyval list result" where
  "py_iter (PList xs) = Inr xs"
| "py_iter (PStr s) = Inr (map (\<lambda>c. PStr [c]) s)"
| "py_iter (PDict d) = Inr (map (\<lambda>kv. PStr (fst kv)) d)"
| "py_iter _ = Inl TypeError"

fun is_str :: "pyval \<Rightarrow> bool" where
  "is_str (PStr s) = True"
| "is_str _ = False"

section \<open>Dict displays and calls\<close>

text \<open>Storing a key: overwrite in place when present, append otherwise.\<close>

fun dict_set :: "pdict \<Rightarrow> string \<Rightarrow> pyval \<Rightarrow> pdict" where
  "dict_set [] k v = [(k, v)]"
| "dict_set ((k', v') # d) k v = (if k' = k then (k, v) # d else (k', v') # dict_set d k v)"

text \<open>\<open>{**d1, **d2, ...}\<close>: the items of every operand stored one by one into an empty dict.\<close>

definition dict_unpack :: "pdict list \<Rightarrow> pdict" where
  "dict_unpack ds = foldl (\<lambda>d kv. dict_set d (fst kv) (snd kv)) [] (concat ds)"

text \<open>\<open>**v\<close> needs a mapping; anything else raises TypeError.\<close>

fun as_mapping :: "pyval \<Rightarrow> pdict result" where
  "as_mapping (PDict d) = Inr d"
| "as_mapping _ = Inl TypeError"

text \<open>Calling a function whose only parameter is \<open>**kwargs\<close>: positional
  arguments raise TypeError ("takes 0 positional arguments").\<close>

definition py_call_kw :: "pyval list \<Rightarrow> kwargs \<Rightarrow> (kwargs \<Rightarrow> pyval result) \<Rightarrow> pyval result" where
  "py_call_kw args kw f = (if args = [] then f kw else Inl TypeError)"

section \<open>Required and optional keyword arguments\<close>

text \<open>The keys an optional argument adds: one when it is truthy, none otherwise.\<close>

definition opt_key :: "kwargs \<Rightarrow> string \<Rightarrow> string \<Rightarrow> string list" where
  "opt_key kw k key = (if py_truthy (kw_get kw k) then [key] else [])"

text \<open>The item an optional argument adds: \<open>(key, f(kwargs[k]))\<close> when it is truthy.\<close>

definition opt_item :: "kwargs \<Rightarrow> string \<Rightarrow> string \<Rightarrow> (pyval \<Rightarrow> pyval) \<Rightarrow> pdict" where
  "opt_item kw k key f = (if py_truthy (kw_get kw k) then [(key, f (kw_get kw k))] else [])"

text \<open>The first of a list of required keywords that the call does not pass.\<close>

definition first_missing :: "kwargs \<Rightarrow> string list \<Rightarrow> string option" where
  "first_missing kw ks = find (\<lambda>k. map_of kw k = None) ks"

section \<open>Observations on documents\<close>

fun pv_keys :: "pyval \<Rightarrow> string list" where
  "pv_keys (PDict d) = map fst d"
| "pv_keys _ = []"

fun pv_field :: "pyval \<Rightarrow> string \<Rightarrow> pyval option" where
  "pv_field (PDict d) k = map_of d k"
| "pv_field _ k = None"

text \<open>A document without \<open>None\<close> at any depth: the specification's additive-only
  policy (section 4.1) forbids a null placeholder for an omitted optional field.\<close>

fun pv_nonull :: "pyval \<Rightarrow> bool" where
  "pv_nonull PNone = False"
| "pv_nonull (PList xs) = list_all pv_nonull xs"
| "pv_nonull (PDict d) = list_all (\<lambda>kv. pv_nonull (snd kv)) d"
| "pv_nonull _ = True"

section \<open>Lemmas on results\<close>

lemma bindE_Inl [simp, py_simps]: "bindE (Inl e) f = Inl e"
  by (simp add: bindE_def)

lemma bindE_Inr [simp, py_simps]: "bindE (Inr x) f = f x"
  by (simp add: bindE_def)

lemma bindE_assoc [simp, py_simps]: "bindE (bindE m f) g = bindE m (\<lambda>x. bindE (f x) g)"
  by (cases m) auto

lemma bindE_eq_Inr_iff: "bindE m f = Inr y \<longleftrightarrow> (\<exists>x. m = Inr x \<and> f x = Inr y)"
  by (cases m) auto

lemma bindE_eq_Inl_iff:
  "bindE m f = Inl e \<longleftrightarrow> m = Inl e \<or> (\<exists>x. m = Inr x \<and> f x = Inl e)"
  by (cases m) auto

lemma mapE_Inr_map [py_simps]: "mapE (\<lambda>x. Inr (f x)) xs = Inr (map f xs)"
  by (induction xs) auto

lemma mapE_eq_Inr_length: "mapE f xs = Inr ys \<Longrightarrow> length ys = length xs"
  by (induction xs arbitrary: ys) (auto simp: bindE_eq_Inr_iff)

lemma mapE_eq_Inr_nth:
  "mapE f xs = Inr ys \<Longrightarrow> i < length xs \<Longrightarrow> f (xs ! i) = Inr (ys ! i)"
proof (induction xs arbitrary: ys i)
  case Nil
  then show ?case by simp
next
  case (Cons x xs)
  then obtain y ys' where "f x = Inr y" "mapE f xs = Inr ys'" "ys = y # ys'"
    by (auto simp: bindE_eq_Inr_iff)
  with Cons show ?case by (cases i) auto
qed

lemma mapE_Inr_iff: "(\<exists>ys. mapE f xs = Inr ys) \<longleftrightarrow> (\<forall>x\<in>set xs. \<exists>y. f x = Inr y)"
  by (induction xs) (auto simp: bindE_eq_Inr_iff)

lemma mapE_list_all:
  "mapE f xs = Inr ys \<Longrightarrow> (\<And>x y. x \<in> set xs \<Longrightarrow> f x = Inr y \<Longrightarrow> P y) \<Longrightarrow> list_all P ys"
proof (induction xs arbitrary: ys)
  case Nil
  then show ?case by simp
next
  case (Cons a xs)
  from Cons.prems(1) obtain y ys' where y: "f a = Inr y" and ys': "mapE f xs = Inr ys'"
    and ys: "ys = y # ys'"
    by (auto simp: bindE_eq_Inr_iff)
  from Cons.prems(2) [of a y] y have "P y" by simp
  moreover have "list_all P ys'"
    using Cons.IH [OF ys'] Cons.prems(2) by (meson list.set_intros(2))
  ultimately show ?case by (simp add: ys)
qed

section \<open>Lemmas on keyword arguments\<close>

lemma kw_sub_Some [py_simps]: "map_of kw k = Some v \<Longrightarrow> kw_sub kw k = Inr v"
  by (simp add: kw_sub_def)

lemma kw_sub_None [py_simps]: "map_of kw k = None \<Longrightarrow> kw_sub kw k = Inl (KeyError (PStr k))"
  by (simp add: kw_sub_def)

lemma kw_get_Some [py_simps]: "map_of kw k = Some v \<Longrightarrow> kw_get kw k = v"
  by (simp add: kw_get_def)

lemma kw_get_None [py_simps]: "map_of kw k = None \<Longrightarrow> kw_get kw k = PNone"
  by (simp add: kw_get_def)

lemma kw_get_not_None: "kw_get kw k = v \<Longrightarrow> v \<noteq> PNone \<Longrightarrow> map_of kw k = Some v"
  by (cases "map_of kw k") (auto simp: kw_get_def)

lemma kw_truthy_sub:
  "py_truthy (kw_get kw k) \<Longrightarrow> kw_sub kw k = Inr (kw_get kw k)"
  by (cases "map_of kw k") (auto simp: kw_sub_def kw_get_def)

lemma first_missing_None_iff:
  "first_missing kw ks = None \<longleftrightarrow> (\<forall>k\<in>set ks. \<exists>v. map_of kw k = Some v)"
  by (auto simp: first_missing_def find_None_iff)

lemma map_fst_opt_item [simp]: "map fst (opt_item kw k key f) = opt_key kw k key"
  by (simp add: opt_item_def opt_key_def)

lemma distinct_opt_key [simp]: "distinct (opt_key kw k key)"
  by (simp add: opt_key_def)

lemma map_of_opt_item_other [simp]: "k' \<noteq> key \<Longrightarrow> map_of (opt_item kw k key f) k' = None"
  by (simp add: opt_item_def)

section \<open>Lemmas on dict displays\<close>

lemma keys_dict_set:
  "map fst (dict_set d k v) = (if k \<in> set (map fst d) then map fst d else map fst d @ [k])"
  by (induction d) force+

lemma map_of_dict_set [py_simps]: "map_of (dict_set d k v) = (map_of d)(k \<mapsto> v)"
  by (induction d) (auto simp: fun_eq_iff)

lemma distinct_dict_set: "distinct (map fst d) \<Longrightarrow> distinct (map fst (dict_set d k v))"
  by (simp add: keys_dict_set)

lemma dict_set_fresh: "k \<notin> set (map fst d) \<Longrightarrow> dict_set d k v = d @ [(k, v)]"
  by (induction d) force+

lemma foldl_dict_set_fresh:
  "distinct (map fst (d @ l)) \<Longrightarrow> foldl (\<lambda>d kv. dict_set d (fst kv) (snd kv)) d l = d @ l"
proof (induction l arbitrary: d)
  case Nil
  then show ?case by simp
next
  case (Cons kv l)
  then have "dict_set d (fst kv) (snd kv) = d @ [kv]"
    by (simp add: dict_set_fresh)
  with Cons.IH [of "d @ [kv]"] Cons.prems show ?case by simp
qed

lemma distinct_foldl_dict_set:
  "distinct (map fst d) \<Longrightarrow> distinct (map fst (foldl (\<lambda>d kv. dict_set d (fst kv) (snd kv)) d l))"
  by (induction l arbitrary: d) (auto simp: distinct_dict_set)

lemma map_of_foldl_dict_set:
  "map_of (foldl (\<lambda>d kv. dict_set d (fst kv) (snd kv)) d l) = map_of d ++ map_of (rev l)"
  by (induction l arbitrary: d) (auto simp: map_of_dict_set map_add_def fun_eq_iff split: option.splits)

text \<open>When the operands' keys are disjoint, \<open>{**a, **b}\<close> is concatenation:
  Python's overwrite never happens.\<close>

lemma dict_unpack_disjoint [py_simps]:
  "distinct (map fst (concat ds)) \<Longrightarrow> dict_unpack ds = concat ds"
  using foldl_dict_set_fresh [of "[]"] by (simp add: dict_unpack_def)

lemma distinct_dict_unpack: "distinct (map fst (dict_unpack ds))"
  by (simp add: dict_unpack_def distinct_foldl_dict_set)

lemma map_of_dict_unpack: "map_of (dict_unpack ds) = map_of (rev (concat ds))"
  by (simp add: dict_unpack_def map_of_foldl_dict_set)

lemma set_dict_set: "set (dict_set d k v) \<subseteq> insert (k, v) (set d)"
  by (induction d) (auto split: if_split_asm)

lemma set_foldl_dict_set:
  "set (foldl (\<lambda>d kv. dict_set d (fst kv) (snd kv)) d l) \<subseteq> set d \<union> set l"
proof (induction l arbitrary: d)
  case Nil
  then show ?case by simp
next
  case (Cons kv l)
  have "set (dict_set d (fst kv) (snd kv)) \<subseteq> insert kv (set d)"
    using set_dict_set [of d "fst kv" "snd kv"] by simp
  with Cons.IH [of "dict_set d (fst kv) (snd kv)"] show ?case by auto
qed

lemma set_dict_unpack: "set (dict_unpack ds) \<subseteq> set (concat ds)"
  using set_foldl_dict_set [of "[]" "concat ds"] by (simp only: dict_unpack_def) simp

lemma map_of_rev_distinct: "distinct (map fst xs) \<Longrightarrow> map_of (rev xs) = map_of xs"
proof (induction xs)
  case Nil
  then show ?case by simp
next
  case (Cons x xs)
  then have "map_of xs (fst x) = None" by (simp add: map_of_eq_None_iff)
  with Cons show ?case by (auto simp: map_add_def fun_eq_iff split: option.splits)
qed

section \<open>Lemmas on None-free documents\<close>

lemma pv_nonull_PDict_iff:
  "pv_nonull (PDict d) \<longleftrightarrow> (\<forall>kv\<in>set d. pv_nonull (snd kv))"
  by (simp add: list_all_iff)

lemma pv_nonull_PList_iff: "pv_nonull (PList xs) \<longleftrightarrow> (\<forall>x\<in>set xs. pv_nonull x)"
  by (simp add: list_all_iff)

lemma pv_nonull_dict_unpack [intro]:
  "(\<And>kv. kv \<in> set (concat ds) \<Longrightarrow> pv_nonull (snd kv)) \<Longrightarrow> pv_nonull (PDict (dict_unpack ds))"
  unfolding pv_nonull_PDict_iff using set_dict_unpack [of ds] by blast

lemma pv_nonull_kw_get:
  "list_all (\<lambda>kv. pv_nonull (snd kv)) kw \<Longrightarrow> py_truthy (kw_get kw k) \<Longrightarrow> pv_nonull (kw_get kw k)"
  by (cases "map_of kw k") (force simp: kw_get_def list_all_iff dest: map_of_SomeD)+

lemma pv_nonull_kw_sub:
  "list_all (\<lambda>kv. pv_nonull (snd kv)) kw \<Longrightarrow> kw_sub kw k = Inr v \<Longrightarrow> pv_nonull v"
  by (cases "map_of kw k") (force simp: kw_sub_def list_all_iff dest: map_of_SomeD)+

lemma pv_nonull_py_iter: "pv_nonull v \<Longrightarrow> py_iter v = Inr xs \<Longrightarrow> list_all pv_nonull xs"
  by (cases v rule: py_iter.cases) (auto simp: list_all_iff)

lemma pv_nonull_py_getkey: "pv_nonull v \<Longrightarrow> py_getkey v k = Inr x \<Longrightarrow> pv_nonull x"
  by (cases v) (force simp: list_all_iff split: option.splits dest: map_of_SomeD)+

lemma pv_nonull_py_index0: "pv_nonull v \<Longrightarrow> py_index0 v = Inr x \<Longrightarrow> pv_nonull x"
  by (cases v rule: py_index0.cases) auto


lemma pv_nonull_opt_item:
  "list_all (\<lambda>kv. pv_nonull (snd kv)) kw \<Longrightarrow> (\<And>v. pv_nonull v \<Longrightarrow> pv_nonull (f v)) \<Longrightarrow>
   list_all (\<lambda>kv. pv_nonull (snd kv)) (opt_item kw k key f)"
  by (simp add: opt_item_def pv_nonull_kw_get)

end
