(* ===== verification/Text_Objects.thy ===== *)
theory Text_Objects
  imports Py_Prelude
begin

text \<open>
  The leaf builders of \<open>src/modal.py\<close>: the two text objects
  (\<open>plain_text_object\<close>, \<open>mrkdwn_object\<close>), the view shell and its
  one-key fragments (\<open>view\<close>, \<open>submit\<close>, \<open>close\<close>, \<open>blocks\<close>), the
  layout blocks that take no element (\<open>header\<close>, \<open>divider\<close>,
  \<open>actions\<close>) and the confirmation dialog \<open>confirm\<close>.  A function taking
  \<open>**kwargs\<close> takes a \<open>kwargs\<close> association list and may raise
  \<open>KeyError\<close>; the others are total.  Dict literals are \<open>PDict\<close> with
  their keys in source order; values are evaluated left to right, so the first
  missing keyword is the one reported.
\<close>

section \<open>Definitions\<close>

definition plain_text_object :: "pyval \<Rightarrow> pyval" where
  "plain_text_object text =
     PDict [(''type'', PStr ''plain_text''), (''text'', text), (''emoji'', PBool True)]"

definition mrkdwn_object :: "pyval \<Rightarrow> pyval" where
  "mrkdwn_object text = PDict [(''type'', PStr ''mrkdwn''), (''text'', text)]"

definition view :: "kwargs \<Rightarrow> pyval result" where
  "view kw =
     bindE (kw_sub kw ''type'') (\<lambda>ty.
     bindE (kw_sub kw ''text'') (\<lambda>text.
       Inr (PDict [(''type'', ty), (''title'', plain_text_object text)])))"

definition submit :: "pyval \<Rightarrow> pyval" where
  "submit text = PDict [(''submit'', plain_text_object text)]"

definition close :: "pyval \<Rightarrow> pyval" where
  "close text = PDict [(''close'', plain_text_object text)]"

definition header :: "pyval \<Rightarrow> pyval" where
  "header text = PDict [(''type'', PStr ''header''), (''text'', plain_text_object text)]"

definition divider :: "pyval" where
  "divider = PDict [(''type'', PStr ''divider'')]"

definition confirm :: "kwargs \<Rightarrow> pyval result" where
  "confirm kw =
     bindE (kw_sub kw ''confirm_title'') (\<lambda>title.
     bindE (kw_sub kw ''confirm_text'') (\<lambda>text.
     bindE (kw_sub kw ''confirm_approve_text'') (\<lambda>approve.
     bindE (kw_sub kw ''confirm_deny_text'') (\<lambda>deny.
       Inr (PDict
         [(''title'', PDict [(''type'', PStr ''plain_text''), (''text'', title)]),
          (''text'', PDict [(''type'', PStr ''mrkdwn''), (''text'', text)]),
          (''confirm'', PDict [(''type'', PStr ''plain_text''), (''text'', approve)]),
          (''deny'', PDict [(''type'', PStr ''plain_text''), (''text'', deny)])])))))"

definition blocks :: "pyval \<Rightarrow> pyval" where
  "blocks blocks_list = PDict [(''blocks'', blocks_list)]"

definition actions :: "pyval \<Rightarrow> pyval" where
  "actions items = PDict [(''type'', PStr ''actions''), (''elements'', items)]"

text \<open>The four keywords whose joint presence \<open>button\<close> tests before it
  attaches a confirmation dialog (\<open>src/modal.py\<close>, lines 208--211).\<close>

definition confirm_given :: "kwargs \<Rightarrow> bool" where
  "confirm_given kw \<longleftrightarrow>
     py_truthy (kw_get kw ''confirm_title'') \<and> py_truthy (kw_get kw ''confirm_text'') \<and>
     py_truthy (kw_get kw ''confirm_approve_text'') \<and> py_truthy (kw_get kw ''confirm_deny_text'')"

section \<open>Lemmas\<close>

lemma pv_nonull_plain_text_object [simp]: "pv_nonull (plain_text_object t) = pv_nonull t"
  by (simp add: plain_text_object_def)

lemma pv_nonull_mrkdwn_object [simp]: "pv_nonull (mrkdwn_object t) = pv_nonull t"
  by (simp add: mrkdwn_object_def)

lemma pv_nonull_submit [simp]: "pv_nonull (submit t) = pv_nonull t"
  by (simp add: submit_def)

lemma pv_nonull_close [simp]: "pv_nonull (close t) = pv_nonull t"
  by (simp add: close_def)

lemma pv_nonull_header [simp]: "pv_nonull (header t) = pv_nonull t"
  by (simp add: header_def)

lemma pv_nonull_divider [simp]: "pv_nonull divider"
  by (simp add: divider_def)

lemma pv_nonull_blocks [simp]: "pv_nonull (blocks b) = pv_nonull b"
  by (simp add: blocks_def)

lemma pv_nonull_actions [simp]: "pv_nonull (actions b) = pv_nonull b"
  by (simp add: actions_def)

lemma pv_keys_plain_text_object [simp]:
  "pv_keys (plain_text_object t) = [''type'', ''text'', ''emoji'']"
  by (simp add: plain_text_object_def)

lemma pv_keys_mrkdwn_object [simp]: "pv_keys (mrkdwn_object t) = [''type'', ''text'']"
  by (simp add: mrkdwn_object_def)

lemma confirm_Inr_iff:
  "(\<exists>c. confirm kw = Inr c) \<longleftrightarrow>
     {''confirm_title'', ''confirm_text'', ''confirm_approve_text'', ''confirm_deny_text''}
       \<subseteq> dom (map_of kw)"
  by (auto simp: confirm_def kw_sub_def split: option.splits)

lemma confirm_given_Inr: "confirm_given kw \<Longrightarrow> \<exists>c. confirm kw = Inr c"
  by (auto simp: confirm_given_def confirm_def kw_truthy_sub)

lemma pv_nonull_confirm:
  "list_all (\<lambda>kv. pv_nonull (snd kv)) kw \<Longrightarrow> confirm kw = Inr c \<Longrightarrow> pv_nonull c"
  by (auto simp: confirm_def bindE_eq_Inr_iff dest: pv_nonull_kw_sub)

lemma pv_nonull_view:
  "list_all (\<lambda>kv. pv_nonull (snd kv)) kw \<Longrightarrow> view kw = Inr v \<Longrightarrow> pv_nonull v"
  by (auto simp: view_def bindE_eq_Inr_iff dest: pv_nonull_kw_sub)


lemma view_Inr:
  "map_of kw ''type'' = Some ty \<Longrightarrow> map_of kw ''text'' = Some t \<Longrightarrow>
   view kw = Inr (PDict [(''type'', ty), (''title'', plain_text_object t)])"
  by (simp add: view_def kw_sub_Some)

text \<open>C19: The dialog \<open>confirm\<close> builds has plain_text title, confirm and
  deny objects without the \<open>emoji\<close> key that \<open>plain_text_object\<close> always
  sets: the confirmation dialog does not use the library's own text-object builder.\<close>

theorem confirm_plain_text_without_emoji:
  assumes "confirm kw = Inr c"
  shows "list_all (\<lambda>k. case pv_field c k of
                         None \<Rightarrow> False
                       | Some t \<Rightarrow> pv_field t ''type'' = Some (PStr ''plain_text'') \<and>
                                   ''emoji'' \<notin> set (pv_keys t))
                  [''title'', ''confirm'', ''deny'']"
  using assms by (auto simp: confirm_def bindE_eq_Inr_iff)

theorem confirm_plain_text_without_emoji_witness:
  "confirm [(''confirm_title'', PStr ''Sure?''), (''confirm_text'', PStr ''Really''),
            (''confirm_approve_text'', PStr ''Yes''), (''confirm_deny_text'', PStr ''No'')] =
     Inr (PDict [(''title'', PDict [(''type'', PStr ''plain_text''), (''text'', PStr ''Sure?'')]),
                 (''text'', PDict [(''type'', PStr ''mrkdwn''), (''text'', PStr ''Really'')]),
                 (''confirm'', PDict [(''type'', PStr ''plain_text''), (''text'', PStr ''Yes'')]),
                 (''deny'', PDict [(''type'', PStr ''plain_text''), (''text'', PStr ''No'')])]) \<and>
   pv_field (plain_text_object (PStr ''Yes'')) ''emoji'' = Some (PBool True)"
proof -
  have c: "confirm [(''confirm_title'', PStr ''Sure?''), (''confirm_text'', PStr ''Really''),
            (''confirm_approve_text'', PStr ''Yes''), (''confirm_deny_text'', PStr ''No'')] =
     Inr (PDict [(''title'', PDict [(''type'', PStr ''plain_text''), (''text'', PStr ''Sure?'')]),
                 (''text'', PDict [(''type'', PStr ''mrkdwn''), (''text'', PStr ''Really'')]),
                 (''confirm'', PDict [(''type'', PStr ''plain_text''), (''text'', PStr ''Yes'')]),
                 (''deny'', PDict [(''type'', PStr ''plain_text''), (''text'', PStr ''No'')])])"
    by (simp add: confirm_def kw_sub_def)
  from c confirm_plain_text_without_emoji [OF c] show ?thesis
    by (simp add: plain_text_object_def)
qed

text \<open>C20: \<open>view\<close> raises exactly when \<open>type\<close> or \<open>text\<close> is missing, with
  the \<open>KeyError\<close> of the first missing one (\<open>type\<close> is read first).\<close>

theorem view_error:
  "view kw = Inl e \<longleftrightarrow>
     (\<exists>k. first_missing kw [''type'', ''text''] = Some k \<and> e = KeyError (PStr k))"
  by (auto simp: view_def first_missing_def kw_sub_def split: option.splits)

end
