(* ===== verification/Option_Items.thy ===== *)
theory Option_Items
  imports Text_Objects
begin

text \<open>
  \<open>option_items\<close> of \<open>src/modal.py\<close> (lines 185--193): the helper that
  turns a caller's list into the \<open>options\<close> of a select, checkboxes, radio
  buttons or overflow element.  The shape is chosen by the first element only:
  a string first makes every item \<open>{text: plain_text(item), value: item}\<close>; any
  other first element makes every item a record read with \<open>item['text']\<close>,
  \<open>item['description']\<close>, \<open>item['value']\<close>.  \<open>items[0]\<close> raises
  IndexError on an empty list, and indexing a non-dict item by a string raises
  TypeError.  The lemmas give the result in both modes, the errors, that the
  result is a list of \<open>None\<close>-free dicts with one option per item (never none), and
  what a bare string does: Python iterates it, so it gives one option per character.
\<close>

section \<open>Definitions\<close>

definition option_record :: "pyval \<Rightarrow> pyval result" where
  "option_record item =
     bindE (py_getkey item ''text'') (\<lambda>text.
     bindE (py_getkey item ''description'') (\<lambda>desc.
     bindE (py_getkey item ''value'') (\<lambda>value.
       Inr (PDict [(''text'', mrkdwn_object text), (''description'', mrkdwn_object desc),
                   (''value'', value)]))))"

definition option_items :: "pyval \<Rightarrow> pyval list result" where
  "option_items items =
     bindE (py_index0 items) (\<lambda>first.
     bindE (py_iter items) (\<lambda>xs.
       if is_str first
       then mapE (\<lambda>item. Inr (PDict [(''text'', plain_text_object item), (''value'', item)])) xs
       else mapE option_record xs))"

section \<open>Lemmas\<close>

lemma option_record_PDict:
  "option_record (PDict [(''text'', t), (''description'', d), (''value'', v)]) =
     Inr (PDict [(''text'', mrkdwn_object t), (''description'', mrkdwn_object d), (''value'', v)])"
  by (simp add: option_record_def)

lemma option_record_non_dict: "\<not> (\<exists>d. item = PDict d) \<Longrightarrow> option_record item = Inl TypeError"
  by (cases item) (auto simp: option_record_def)

lemma pv_nonull_option_record: "pv_nonull item \<Longrightarrow> option_record item = Inr y \<Longrightarrow> pv_nonull y"
  by (auto simp: option_record_def bindE_eq_Inr_iff dest: pv_nonull_py_getkey)

lemma mapE_option_record_records:
  "mapE option_record
     (map (\<lambda>(t, d, v). PDict [(''text'', t), (''description'', d), (''value'', v)]) rs) =
   Inr (map (\<lambda>(t, d, v). PDict [(''text'', mrkdwn_object t), (''description'', mrkdwn_object d),
                                 (''value'', v)]) rs)"
  by (induction rs) (auto simp: option_record_PDict)

lemma mapE_non_dict_error:
  "y \<in> set xs \<Longrightarrow> \<not> (\<exists>d. y = PDict d) \<Longrightarrow> \<exists>e. mapE option_record xs = Inl e"
  by (induction xs) (auto simp: option_record_non_dict bindE_def split: sum.splits)

lemma pv_nonull_option_items:
  "pv_nonull items \<Longrightarrow> option_items items = Inr ys \<Longrightarrow> list_all pv_nonull ys"
proof -
  assume wf: "pv_nonull items" and res: "option_items items = Inr ys"
  from res obtain first xs where first: "py_index0 items = Inr first"
    and xs: "py_iter items = Inr xs"
    and m: "(if is_str first
             then mapE (\<lambda>item. Inr (PDict [(''text'', plain_text_object item), (''value'', item)])) xs
             else mapE option_record xs) = Inr ys"
    by (auto simp: option_items_def bindE_eq_Inr_iff)
  from wf xs have xs_wf: "list_all pv_nonull xs" by (rule pv_nonull_py_iter)
  show ?thesis
  proof (cases "is_str first")
    case True
    with m xs_wf show ?thesis by (auto simp: mapE_Inr_map list_all_iff)
  next
    case False
    with m have "mapE option_record xs = Inr ys" by simp
    then show ?thesis
    proof (rule mapE_list_all)
      fix x y
      assume "x \<in> set xs" and "option_record x = Inr y"
      with xs_wf show "pv_nonull y" by (auto simp: list_all_iff intro: pv_nonull_option_record)
    qed
  qed
qed

lemma py_index0_iter_nonempty: "py_index0 v = Inr x \<Longrightarrow> py_iter v = Inr xs \<Longrightarrow> xs \<noteq> []"
  by (cases v rule: py_index0.cases) auto

text \<open>C5: In string mode (the first item is a string), \<open>option_items\<close> maps
  every item, whatever its type, to \<open>{text: plain_text_object(item), value: item}\<close>,
  in order; the shape of the later items is never checked.\<close>

theorem option_items_strings:
  assumes "is_str x"
  shows "option_items (PList (x # xs)) =
           Inr (map (\<lambda>item. PDict [(''text'', plain_text_object item), (''value'', item)]) (x # xs))"
  using assms by (simp add: option_items_def mapE_Inr_map del: mapE.simps)

theorem option_items_strings_witness:
  "is_str (PStr ''a'') \<and>
   option_items (PList [PStr ''a'', PStr ''b'']) =
     Inr [PDict [(''text'', PDict [(''type'', PStr ''plain_text''), (''text'', PStr ''a''),
                                  (''emoji'', PBool True)]), (''value'', PStr ''a'')],
          PDict [(''text'', PDict [(''type'', PStr ''plain_text''), (''text'', PStr ''b''),
                                  (''emoji'', PBool True)]), (''value'', PStr ''b'')]]"
  using option_items_strings [of "PStr ''a''" "[PStr ''b'']"]
  by (simp add: plain_text_object_def)

text \<open>C6: A list of records \<open>{text, description, value}\<close> becomes the list of
  \<open>{text: mrkdwn(text), description: mrkdwn(description), value}\<close>, in order; the
  empty list raises IndexError (the code reads \<open>items[0]\<close> first).\<close>

theorem option_items_records:
  "option_items (PList (map (\<lambda>(t, d, v). PDict [(''text'', t), (''description'', d), (''value'', v)]) rs)) =
     (if rs = [] then Inl IndexError
      else Inr (map (\<lambda>(t, d, v). PDict [(''text'', mrkdwn_object t), (''description'', mrkdwn_object d),
                                         (''value'', v)]) rs))"
proof (cases rs)
  case Nil
  then show ?thesis by (simp add: option_items_def)
next
  case (Cons r rs')
  have "mapE option_record
     (map (\<lambda>(t, d, v). PDict [(''text'', t), (''description'', d), (''value'', v)]) rs) =
   Inr (map (\<lambda>(t, d, v). PDict [(''text'', mrkdwn_object t), (''description'', mrkdwn_object d),
                                 (''value'', v)]) rs)"
    by (rule mapE_option_record_records)
  with Cons show ?thesis by (cases r) (simp add: option_items_def del: mapE.simps)
qed

text \<open>C10: In record mode (the first item is not a string), an item that is not a
  dict makes \<open>option_items\<close> raise; mixed input is rejected only in this order,
  while a string first accepts anything after it (\<open>option_items_strings\<close>).\<close>

theorem option_items_record_mode_rejects:
  assumes "\<not> is_str x" and "y \<in> set (x # xs)" and "\<not> (\<exists>d. y = PDict d)"
  shows "\<exists>e. option_items (PList (x # xs)) = Inl e"
  using assms mapE_non_dict_error [of y "x # xs"] by (simp add: option_items_def del: mapE.simps)

theorem option_items_record_mode_rejects_witness:
  "\<not> is_str (PDict [(''text'', PStr ''A''), (''description'', PStr ''d''), (''value'', PStr ''v'')]) \<and>
   PStr ''b'' \<in> set [PDict [(''text'', PStr ''A''), (''description'', PStr ''d''), (''value'', PStr ''v'')],
                    PStr ''b''] \<and>
   \<not> (\<exists>d. PStr ''b'' = PDict d) \<and>
   option_items (PList [PDict [(''text'', PStr ''A''), (''description'', PStr ''d''), (''value'', PStr ''v'')],
                        PStr ''b'']) = Inl TypeError"
proof -
  have "\<exists>e. option_items (PList [PDict [(''text'', PStr ''A''), (''description'', PStr ''d''),
                                          (''value'', PStr ''v'')], PStr ''b'']) = Inl e"
    by (rule option_items_record_mode_rejects [where y = "PStr ''b''"]) auto
  moreover have "option_items (PList [PDict [(''text'', PStr ''A''), (''description'', PStr ''d''),
                                             (''value'', PStr ''v'')], PStr ''b'']) = Inl TypeError"
    by (simp add: option_items_def option_record_def)
  ultimately show ?thesis by simp
qed


text \<open>C25: Bounds: whenever \<open>option_items\<close> returns, it returns exactly one
  option per item the argument iterates over, and at least one.\<close>

theorem option_items_length:
  assumes "option_items items = Inr ys" and "py_iter items = Inr xs"
  shows "length ys = length xs \<and> 0 < length ys"
proof -
  from assms(1) obtain first xs' where first: "py_index0 items = Inr first"
    and xs': "py_iter items = Inr xs'"
    and m: "(if is_str first
             then mapE (\<lambda>item. Inr (PDict [(''text'', plain_text_object item), (''value'', item)])) xs'
             else mapE option_record xs') = Inr ys"
    by (auto simp: option_items_def bindE_eq_Inr_iff)
  from xs' assms(2) have "xs' = xs" by simp
  moreover from m have "length ys = length xs'"
    by (auto dest: mapE_eq_Inr_length split: if_splits)
  moreover from py_index0_iter_nonempty [OF first xs'] have "xs' \<noteq> []" .
  ultimately show ?thesis by simp
qed

theorem option_items_length_witness:
  "option_items (PList [PStr ''a'', PStr ''b'']) =
     Inr [PDict [(''text'', plain_text_object (PStr ''a'')), (''value'', PStr ''a'')],
          PDict [(''text'', plain_text_object (PStr ''b'')), (''value'', PStr ''b'')]] \<and>
   py_iter (PList [PStr ''a'', PStr ''b'']) = Inr [PStr ''a'', PStr ''b''] \<and>
   length [PStr ''a'', PStr ''b''] = 2"
proof -
  have o: "option_items (PList [PStr ''a'', PStr ''b'']) =
     Inr [PDict [(''text'', plain_text_object (PStr ''a'')), (''value'', PStr ''a'')],
          PDict [(''text'', plain_text_object (PStr ''b'')), (''value'', PStr ''b'')]]"
    by (simp add: option_items_def)
  have i: "py_iter (PList [PStr ''a'', PStr ''b'']) = Inr [PStr ''a'', PStr ''b'']" by simp
  from option_items_length [OF o i] o i show ?thesis by simp
qed

text \<open>C26: Boundary input: a single non-empty string passed where a list of
  options is expected is iterated character by character, so it becomes one option
  per character instead of an error or one option.\<close>

theorem option_items_string_splits:
  "s \<noteq> [] \<Longrightarrow>
   option_items (PStr s) =
     Inr (map (\<lambda>c. PDict [(''text'', plain_text_object (PStr [c])), (''value'', PStr [c])]) s)"
  by (cases s) (simp_all add: option_items_def mapE_Inr_map del: mapE.simps)

theorem option_items_string_splits_witness:
  "''ab'' \<noteq> [] \<and>
   option_items (PStr ''ab'') =
     Inr [PDict [(''text'', plain_text_object (PStr ''a'')), (''value'', PStr ''a'')],
          PDict [(''text'', plain_text_object (PStr ''b'')), (''value'', PStr ''b'')]]"
  using option_items_string_splits [of "''ab''"] by simp

end
