(* ===== verification/Elements.thy ===== *)
theory Elements
  imports Option_Items
begin

text \<open>
  The interactive element builders of \<open>src/modal.py\<close> (lines 196--371):
  \<open>button\<close>, \<open>plain_text_input\<close>, \<open>static_select\<close>,
  \<open>conversations_select\<close>, \<open>users_select\<close>, \<open>channels_select\<close>,
  \<open>datepicker\<close>, \<open>timepicker\<close>, \<open>checkboxes\<close>, \<open>radio_buttons\<close>,
  \<open>overflow\<close> and \<open>image\<close>.  Each reads its required keywords with
  \<open>kwargs[k]\<close> in the order of its dict literal, then adds each optional key
  with the idiom \<open>if kwargs.get(k): schema = {**schema, **{key: f(kwargs[k])}}\<close>,
  which is \<open>add_if_given\<close>.  The lemmas give each builder's result on
  success (its exact list of keys, so no key is ever overwritten by the merges),
  its errors (the first missing required keyword), and that it adds no \<open>None\<close>.
\<close>

section \<open>Definitions\<close>

definition add_if_given :: "kwargs \<Rightarrow> string \<Rightarrow> string \<Rightarrow> (pyval \<Rightarrow> pyval) \<Rightarrow> pdict \<Rightarrow> pdict" where
  "add_if_given kw k key f schema =
     (if py_truthy (kw_get kw k) then dict_unpack [schema, [(key, f (kw_get kw k))]] else schema)"

definition button :: "kwargs \<Rightarrow> pyval result" where
  "button kw =
     bindE (kw_sub kw ''text'') (\<lambda>text.
     bindE (kw_sub kw ''value'') (\<lambda>value.
     bindE (kw_sub kw ''action_id'') (\<lambda>action_id.
       let schema = add_if_given kw ''url'' ''url'' id
             [(''type'', PStr ''button''), (''text'', plain_text_object text),
              (''value'', value), (''action_id'', action_id)]
       in if confirm_given kw
          then bindE (confirm kw) (\<lambda>c. Inr (PDict (dict_unpack [schema, [(''confirm'', c)]])))
          else Inr (PDict schema))))"

definition plain_text_input :: "kwargs \<Rightarrow> pyval result" where
  "plain_text_input kw =
     bindE (kw_sub kw ''action_id'') (\<lambda>action_id.
       Inr (PDict
         (add_if_given kw ''multiline'' ''multiline'' id
           (add_if_given kw ''placeholder'' ''placeholder'' plain_text_object
             [(''type'', PStr ''plain_text_input''), (''action_id'', action_id)]))))"

definition static_select :: "kwargs \<Rightarrow> pyval result" where
  "static_select kw =
     bindE (kw_sub kw ''type'') (\<lambda>ty.
     bindE (bindE (kw_sub kw ''options'') option_items) (\<lambda>options.
     bindE (kw_sub kw ''action_id'') (\<lambda>action_id.
       Inr (PDict
         (add_if_given kw ''placeholder'' ''placeholder'' plain_text_object
           [(''type'', ty), (''options'', PList options), (''action_id'', action_id)])))))"

definition conversations_select :: "kwargs \<Rightarrow> pyval result" where
  "conversations_select kw =
     bindE (kw_sub kw ''type'') (\<lambda>ty.
     bindE (kw_sub kw ''action_id'') (\<lambda>action_id.
       Inr (PDict
         (add_if_given kw ''initial_convo'' ''initial_user'' id
           (add_if_given kw ''placeholder'' ''placeholder'' plain_text_object
             [(''type'', ty), (''action_id'', action_id)])))))"

definition users_select :: "kwargs \<Rightarrow> pyval result" where
  "users_select kw =
     bindE (kw_sub kw ''type'') (\<lambda>ty.
     bindE (kw_sub kw ''action_id'') (\<lambda>action_id.
       Inr (PDict
         (add_if_given kw ''initial_user'' ''initial_user'' id
           (add_if_given kw ''placeholder'' ''placeholder'' plain_text_object
             [(''type'', ty), (''action_id'', action_id)])))))"

definition channels_select :: "kwargs \<Rightarrow> pyval result" where
  "channels_select kw =
     bindE (kw_sub kw ''type'') (\<lambda>ty.
     bindE (kw_sub kw ''action_id'') (\<lambda>action_id.
       Inr (PDict
         (add_if_given kw ''initial_channel'' ''initial_channel'' id
           (add_if_given kw ''placeholder'' ''placeholder'' plain_text_object
             [(''type'', ty), (''action_id'', action_id)])))))"

definition datepicker :: "kwargs \<Rightarrow> pyval result" where
  "datepicker kw =
     bindE (kw_sub kw ''action_id'') (\<lambda>action_id.
       Inr (PDict
         (add_if_given kw ''initial_date'' ''initial_date'' id
           (add_if_given kw ''placeholder'' ''placeholder'' plain_text_object
             [(''type'', PStr ''datepicker''), (''action_id'', action_id)]))))"

definition timepicker :: "kwargs \<Rightarrow> pyval result" where
  "timepicker kw =
     bindE (kw_sub kw ''action_id'') (\<lambda>action_id.
       Inr (PDict
         (add_if_given kw ''initial_time'' ''initial_time'' id
           (add_if_given kw ''placeholder'' ''placeholder'' plain_text_object
             [(''type'', PStr ''timepicker''), (''action_id'', action_id)]))))"

text \<open>\<open>checkboxes\<close>, \<open>radio_buttons\<close> and \<open>overflow\<close> share one body
  (lines 327--357) but for the type tag.\<close>

definition checkboxes :: "kwargs \<Rightarrow> pyval result" where
  "checkboxes kw =
     bindE (bindE (kw_sub kw ''options'') option_items) (\<lambda>options.
     bindE (kw_sub kw ''action_id'') (\<lambda>action_id.
       Inr (PDict [(''type'', PStr ''checkboxes''), (''options'', PList options),
                   (''action_id'', action_id)])))"

definition radio_buttons :: "kwargs \<Rightarrow> pyval result" where
  "radio_buttons kw =
     bindE (bindE (kw_sub kw ''options'') option_items) (\<lambda>options.
     bindE (kw_sub kw ''action_id'') (\<lambda>action_id.
       Inr (PDict [(''type'', PStr ''radio_buttons''), (''options'', PList options),
                   (''action_id'', action_id)])))"

definition overflow :: "kwargs \<Rightarrow> pyval result" where
  "overflow kw =
     bindE (bindE (kw_sub kw ''options'') option_items) (\<lambda>options.
     bindE (kw_sub kw ''action_id'') (\<lambda>action_id.
       Inr (PDict [(''type'', PStr ''overflow''), (''options'', PList options),
                   (''action_id'', action_id)])))"

definition image :: "kwargs \<Rightarrow> pyval result" where
  "image kw =
     bindE (kw_sub kw ''image_url'') (\<lambda>image_url.
     bindE (kw_sub kw ''alt_text'') (\<lambda>alt_text.
       Inr (PDict
         (add_if_given kw ''title'' ''title'' plain_text_object
           [(''type'', PStr ''image''), (''image_url'', image_url), (''alt_text'', alt_text)]))))"

section \<open>Lemmas\<close>

lemma add_if_given_fresh:
  assumes "distinct (map fst s)" and "key \<notin> set (map fst s)"
  shows "add_if_given kw k key f s =
           s @ (if py_truthy (kw_get kw k) then [(key, f (kw_get kw k))] else [])"
  using assms by (simp add: add_if_given_def dict_unpack_disjoint)

lemma add_if_given_opt_item:
  assumes "distinct (map fst s)" and "key \<notin> set (map fst s)"
  shows "add_if_given kw k key f s = s @ opt_item kw k key f"
  using assms by (simp add: add_if_given_fresh opt_item_def)

lemma distinct_add_if_given [simp]:
  "distinct (map fst s) \<Longrightarrow> distinct (map fst (add_if_given kw k key f s))"
  by (simp add: add_if_given_def distinct_dict_unpack)

lemma map_of_add_if_given [simp]:
  assumes "distinct (map fst s)"
  shows "map_of (add_if_given kw k key f s) =
           (if py_truthy (kw_get kw k) then (map_of s)(key \<mapsto> f (kw_get kw k)) else map_of s)"
  using assms by (simp add: add_if_given_def map_of_dict_unpack map_of_rev_distinct)

lemma keys_add_if_given:
  assumes "distinct (map fst s)" and "key \<notin> set (map fst s)"
  shows "map fst (add_if_given kw k key f s) = map fst s @ opt_key kw k key"
  using assms by (simp add: add_if_given_fresh opt_key_def)

lemma pv_nonull_add_if_given:
  assumes "pv_nonull (PDict s)" and "pv_nonull (kw_get kw k) \<Longrightarrow> pv_nonull (f (kw_get kw k))"
    and "list_all (\<lambda>kv. pv_nonull (snd kv)) kw"
  shows "pv_nonull (PDict (add_if_given kw k key f s))"
proof (cases "py_truthy (kw_get kw k)")
  case True
  have "pv_nonull (f (kw_get kw k))" using assms(2,3) True by (simp add: pv_nonull_kw_get)
  with assms(1) have "pv_nonull (PDict (dict_unpack [s, [(key, f (kw_get kw k))]]))"
    by (intro pv_nonull_dict_unpack) (auto simp: pv_nonull_PDict_iff list_all_iff)
  with True show ?thesis by (simp add: add_if_given_def)
next
  case False
  with assms(1) show ?thesis by (simp add: add_if_given_def)
qed

lemma button_Inr:
  assumes "map_of kw ''text'' = Some t" and "map_of kw ''value'' = Some v"
    and "map_of kw ''action_id'' = Some a"
  shows "button kw = Inr (PDict
           ([(''type'', PStr ''button''), (''text'', plain_text_object t), (''value'', v),
             (''action_id'', a)] @
            (if py_truthy (kw_get kw ''url'') then [(''url'', kw_get kw ''url'')] else []) @
            (if confirm_given kw then [(''confirm'', projr (confirm kw))] else [])))"
proof (cases "confirm_given kw")
  case True
  then obtain c where c: "confirm kw = Inr c" using confirm_given_Inr by blast
  with True assms show ?thesis
    by (simp add: button_def kw_sub_Some add_if_given_fresh dict_unpack_disjoint)
next
  case False
  with assms show ?thesis
    by (simp add: button_def kw_sub_Some add_if_given_fresh)
qed

lemma button_Inr_iff:
  "(\<exists>b. button kw = Inr b) \<longleftrightarrow> first_missing kw [''text'', ''value'', ''action_id''] = None"
proof
  assume "\<exists>b. button kw = Inr b"
  then show "first_missing kw [''text'', ''value'', ''action_id''] = None"
    by (auto simp: first_missing_None_iff button_def kw_sub_def split: option.splits)
next
  assume "first_missing kw [''text'', ''value'', ''action_id''] = None"
  then obtain t v a where "map_of kw ''text'' = Some t" "map_of kw ''value'' = Some v"
      "map_of kw ''action_id'' = Some a"
    by (auto simp: first_missing_None_iff)
  then show "\<exists>b. button kw = Inr b" by (simp add: button_Inr)
qed

lemma plain_text_input_eq:
  "plain_text_input kw =
     bindE (kw_sub kw ''action_id'') (\<lambda>a.
       Inr (PDict ([(''type'', PStr ''plain_text_input''), (''action_id'', a)] @
                   opt_item kw ''placeholder'' ''placeholder'' plain_text_object @
                   opt_item kw ''multiline'' ''multiline'' id)))"
  by (simp add: plain_text_input_def add_if_given_opt_item opt_key_def)

lemma static_select_eq:
  "static_select kw =
     bindE (kw_sub kw ''type'') (\<lambda>ty.
     bindE (kw_sub kw ''options'') (\<lambda>os.
     bindE (option_items os) (\<lambda>opts.
     bindE (kw_sub kw ''action_id'') (\<lambda>a.
       Inr (PDict ([(''type'', ty), (''options'', PList opts), (''action_id'', a)] @
                   opt_item kw ''placeholder'' ''placeholder'' plain_text_object))))))"
  by (simp add: static_select_def add_if_given_opt_item)

lemma conversations_select_eq:
  "conversations_select kw =
     bindE (kw_sub kw ''type'') (\<lambda>ty.
     bindE (kw_sub kw ''action_id'') (\<lambda>a.
       Inr (PDict ([(''type'', ty), (''action_id'', a)] @
                   opt_item kw ''placeholder'' ''placeholder'' plain_text_object @
                   opt_item kw ''initial_convo'' ''initial_user'' id))))"
  by (simp add: conversations_select_def add_if_given_opt_item opt_key_def)

lemma users_select_eq:
  "users_select kw =
     bindE (kw_sub kw ''type'') (\<lambda>ty.
     bindE (kw_sub kw ''action_id'') (\<lambda>a.
       Inr (PDict ([(''type'', ty), (''action_id'', a)] @
                   opt_item kw ''placeholder'' ''placeholder'' plain_text_object @
                   opt_item kw ''initial_user'' ''initial_user'' id))))"
  by (simp add: users_select_def add_if_given_opt_item opt_key_def)

lemma channels_select_eq:
  "channels_select kw =
     bindE (kw_sub kw ''type'') (\<lambda>ty.
     bindE (kw_sub kw ''action_id'') (\<lambda>a.
       Inr (PDict ([(''type'', ty), (''action_id'', a)] @
                   opt_item kw ''placeholder'' ''placeholder'' plain_text_object @
                   opt_item kw ''initial_channel'' ''initial_channel'' id))))"
  by (simp add: channels_select_def add_if_given_opt_item opt_key_def)

lemma datepicker_eq:
  "datepicker kw =
     bindE (kw_sub kw ''action_id'') (\<lambda>a.
       Inr (PDict ([(''type'', PStr ''datepicker''), (''action_id'', a)] @
                   opt_item kw ''placeholder'' ''placeholder'' plain_text_object @
                   opt_item kw ''initial_date'' ''initial_date'' id)))"
  by (simp add: datepicker_def add_if_given_opt_item opt_key_def)

lemma timepicker_eq:
  "timepicker kw =
     bindE (kw_sub kw ''action_id'') (\<lambda>a.
       Inr (PDict ([(''type'', PStr ''timepicker''), (''action_id'', a)] @
                   opt_item kw ''placeholder'' ''placeholder'' plain_text_object @
                   opt_item kw ''initial_time'' ''initial_time'' id)))"
  by (simp add: timepicker_def add_if_given_opt_item opt_key_def)

lemma image_eq:
  "image kw =
     bindE (kw_sub kw ''image_url'') (\<lambda>u.
     bindE (kw_sub kw ''alt_text'') (\<lambda>t.
       Inr (PDict ([(''type'', PStr ''image''), (''image_url'', u), (''alt_text'', t)] @
                   opt_item kw ''title'' ''title'' plain_text_object))))"
  by (simp add: image_def add_if_given_opt_item)

lemma button_eq:
  "button kw =
     bindE (kw_sub kw ''text'') (\<lambda>t.
     bindE (kw_sub kw ''value'') (\<lambda>v.
     bindE (kw_sub kw ''action_id'') (\<lambda>a.
       let schema = [(''type'', PStr ''button''), (''text'', plain_text_object t), (''value'', v),
                     (''action_id'', a)] @ opt_item kw ''url'' ''url'' id
       in if confirm_given kw then bindE (confirm kw) (\<lambda>c. Inr (PDict (schema @ [(''confirm'', c)])))
          else Inr (PDict schema))))"
  by (simp add: button_def add_if_given_opt_item dict_unpack_disjoint opt_item_def Let_def
           cong: if_cong)

lemmas element_eqs = button_eq plain_text_input_eq static_select_eq conversations_select_eq
  users_select_eq channels_select_eq datepicker_eq timepicker_eq checkboxes_def
  radio_buttons_def overflow_def image_eq

lemma element_action_id:
  shows "button kw = Inr e \<Longrightarrow> pv_field e ''action_id'' = map_of kw ''action_id''"
    and "plain_text_input kw = Inr e \<Longrightarrow> pv_field e ''action_id'' = map_of kw ''action_id''"
    and "static_select kw = Inr e \<Longrightarrow> pv_field e ''action_id'' = map_of kw ''action_id''"
    and "conversations_select kw = Inr e \<Longrightarrow> pv_field e ''action_id'' = map_of kw ''action_id''"
    and "users_select kw = Inr e \<Longrightarrow> pv_field e ''action_id'' = map_of kw ''action_id''"
    and "channels_select kw = Inr e \<Longrightarrow> pv_field e ''action_id'' = map_of kw ''action_id''"
    and "datepicker kw = Inr e \<Longrightarrow> pv_field e ''action_id'' = map_of kw ''action_id''"
    and "timepicker kw = Inr e \<Longrightarrow> pv_field e ''action_id'' = map_of kw ''action_id''"
    and "checkboxes kw = Inr e \<Longrightarrow> pv_field e ''action_id'' = map_of kw ''action_id''"
    and "radio_buttons kw = Inr e \<Longrightarrow> pv_field e ''action_id'' = map_of kw ''action_id''"
    and "overflow kw = Inr e \<Longrightarrow> pv_field e ''action_id'' = map_of kw ''action_id''"
  by (auto simp: element_eqs bindE_eq_Inr_iff kw_sub_def Let_def opt_item_def
           split: option.splits if_splits)

lemma pv_nonull_elements:
  assumes "list_all (\<lambda>kv. pv_nonull (snd kv)) kw"
  shows "button kw = Inr e \<Longrightarrow> pv_nonull e"
    and "plain_text_input kw = Inr e \<Longrightarrow> pv_nonull e"
    and "static_select kw = Inr e \<Longrightarrow> pv_nonull e"
    and "conversations_select kw = Inr e \<Longrightarrow> pv_nonull e"
    and "users_select kw = Inr e \<Longrightarrow> pv_nonull e"
    and "channels_select kw = Inr e \<Longrightarrow> pv_nonull e"
    and "datepicker kw = Inr e \<Longrightarrow> pv_nonull e"
    and "timepicker kw = Inr e \<Longrightarrow> pv_nonull e"
    and "checkboxes kw = Inr e \<Longrightarrow> pv_nonull e"
    and "radio_buttons kw = Inr e \<Longrightarrow> pv_nonull e"
    and "overflow kw = Inr e \<Longrightarrow> pv_nonull e"
    and "image kw = Inr e \<Longrightarrow> pv_nonull e"
  using assms
  by (auto simp: element_eqs bindE_eq_Inr_iff Let_def opt_item_def pv_nonull_kw_get opt_key_def
           split: if_splits)
     (blast dest: pv_nonull_kw_sub [OF assms] pv_nonull_confirm [OF assms] pv_nonull_option_items)+

text \<open>C1: With its three required keywords and neither a truthy \<open>url\<close> nor
  all four confirmation keywords, \<open>button\<close> returns exactly the dict
  \<open>{type: 'button', text: plain_text_object(text), value, action_id}\<close>, in this
  key order, with no \<open>url\<close> or \<open>confirm\<close> key.\<close>

theorem button_exact:
  assumes "map_of kw ''text'' = Some t" and "map_of kw ''value'' = Some v"
    and "map_of kw ''action_id'' = Some a"
    and "\<not> py_truthy (kw_get kw ''url'')" and "\<not> confirm_given kw"
  shows "button kw = Inr (PDict [(''type'', PStr ''button''), (''text'', plain_text_object t),
                                 (''value'', v), (''action_id'', a)])"
  using assms by (simp add: button_def kw_sub_Some add_if_given_def)

theorem button_exact_witness:
  "button [(''text'', PStr ''My Button''), (''value'', PStr ''my_button''), (''action_id'', PStr ''button_1'')] =
     Inr (PDict [(''type'', PStr ''button''),
                 (''text'', PDict [(''type'', PStr ''plain_text''), (''text'', PStr ''My Button''),
                                   (''emoji'', PBool True)]),
                 (''value'', PStr ''my_button''), (''action_id'', PStr ''button_1'')])"
  using button_exact [of "[(''text'', PStr ''My Button''), (''value'', PStr ''my_button''),
                           (''action_id'', PStr ''button_1'')]"]
  by (simp add: kw_get_def confirm_given_def plain_text_object_def)



text \<open>C9: \<open>button\<close> raises exactly when a required keyword (\<open>text\<close>,
  \<open>value\<close>, \<open>action_id\<close>) is missing, and the error is the \<open>KeyError\<close> of
  the first missing one in that order; optional and partial confirmation keywords
  never raise.\<close>

theorem button_error:
  "button kw = Inl e \<longleftrightarrow>
     (\<exists>k. first_missing kw [''text'', ''value'', ''action_id''] = Some k \<and> e = KeyError (PStr k))"
  by (auto simp: first_missing_def button_def kw_sub_def Let_def bindE_def
           dest: confirm_given_Inr split: option.splits if_splits sum.splits)


text \<open>C17: Optional arguments are additive: a datepicker's keys are
  \<open>type\<close>, \<open>action_id\<close>, then \<open>placeholder\<close> only when it is truthy, then
  \<open>initial_date\<close> only when it is truthy; no key is emitted for an absent or falsy
  argument and none is overwritten.\<close>

theorem datepicker_optional_keys:
  assumes "datepicker kw = Inr d"
  shows "pv_keys d = [''type'', ''action_id''] @ opt_key kw ''placeholder'' ''placeholder'' @
                     opt_key kw ''initial_date'' ''initial_date''"
proof -
  from assms obtain a where "map_of kw ''action_id'' = Some a"
    by (auto simp: datepicker_def bindE_eq_Inr_iff kw_sub_def split: option.splits)
  with assms show ?thesis by (auto simp: datepicker_eq kw_sub_def)
qed

theorem datepicker_optional_keys_witness:
  "datepicker [(''action_id'', PStr ''d''), (''placeholder'', PStr ''''),
               (''initial_date'', PStr ''2021-01-01'')] =
     Inr (PDict [(''type'', PStr ''datepicker''), (''action_id'', PStr ''d''),
                 (''initial_date'', PStr ''2021-01-01'')]) \<and>
   pv_keys (PDict [(''type'', PStr ''datepicker''), (''action_id'', PStr ''d''),
                   (''initial_date'', PStr ''2021-01-01'')]) = [''type'', ''action_id'', ''initial_date'']"
proof -
  have d: "datepicker [(''action_id'', PStr ''d''), (''placeholder'', PStr ''''),
               (''initial_date'', PStr ''2021-01-01'')] =
     Inr (PDict [(''type'', PStr ''datepicker''), (''action_id'', PStr ''d''),
                 (''initial_date'', PStr ''2021-01-01'')])"
    by (simp add: datepicker_def kw_sub_def kw_get_def add_if_given_def dict_unpack_def)
  from d datepicker_optional_keys [OF d] show ?thesis by (simp add: opt_key_def kw_get_def)
qed

text \<open>C16: \<open>conversations_select\<close> stores its \<open>initial_convo\<close> argument under
  the key \<open>initial_user\<close> (a users-select key), not \<open>initial_conversation\<close>:
  the initial conversation is emitted under the wrong name.\<close>

theorem conversations_select_initial_user:
  assumes "conversations_select kw = Inr s"
  shows "pv_field s ''initial_user'' =
           (if py_truthy (kw_get kw ''initial_convo'') then Some (kw_get kw ''initial_convo'') else None) \<and>
         ''initial_conversation'' \<notin> set (pv_keys s)"
proof -
  from assms obtain ty a where "map_of kw ''type'' = Some ty" "map_of kw ''action_id'' = Some a"
    by (auto simp: conversations_select_def bindE_eq_Inr_iff kw_sub_def split: option.splits)
  with assms show ?thesis by (auto simp: conversations_select_eq kw_sub_def opt_item_def opt_key_def)
qed

theorem conversations_select_initial_user_witness:
  "conversations_select [(''type'', PStr ''conversations_select''), (''action_id'', PStr ''c''),
                         (''initial_convo'', PStr ''C123'')] =
     Inr (PDict [(''type'', PStr ''conversations_select''), (''action_id'', PStr ''c''),
                 (''initial_user'', PStr ''C123'')]) \<and>
   pv_field (PDict [(''type'', PStr ''conversations_select''), (''action_id'', PStr ''c''),
                    (''initial_user'', PStr ''C123'')]) ''initial_user'' = Some (PStr ''C123'')"
proof -
  have c: "conversations_select [(''type'', PStr ''conversations_select''), (''action_id'', PStr ''c''),
                         (''initial_convo'', PStr ''C123'')] =
     Inr (PDict [(''type'', PStr ''conversations_select''), (''action_id'', PStr ''c''),
                 (''initial_user'', PStr ''C123'')])"
    by (simp add: conversations_select_def kw_sub_def kw_get_def add_if_given_def dict_unpack_def)
  from c conversations_select_initial_user [OF c] show ?thesis by simp
qed

end
