(* ===== verification/Blocks.thy ===== *)
theory Blocks
  imports Elements
begin

text \<open>
  The two layout blocks of \<open>src/modal.py\<close> that embed an element:
  \<open>section\<close> (lines 97--134, here \<open>section_block\<close>, since
  \<^theory_text>\<open>section\<close> is an Isar command) and \<open>input_type\<close> (lines 146--182).
  Both dispatch on the string \<open>kwargs['type']\<close> through an if/elif chain and
  pass all keyword arguments on to the chosen element builder.  The specification
  enumerates the recognised discriminators (its section 4.1); they are the tables
  \<open>accessory_table\<close> and \<open>input_table\<close>, read by \<open>dispatch\<close>, and the
  lemmas show that the chains implement these tables (a functional refinement),
  what happens outside them (no error: the element is just left out), in
  which order the errors surface, that a section never has both text and fields
  nor a fields section an accessory, and that the element built for a
  discriminator is tagged with it.
\<close>

section \<open>Definitions\<close>

definition section_block :: "kwargs \<Rightarrow> pyval result" where
  "section_block kw =
     bindE (kw_sub kw ''section_text'') (\<lambda>section_text.
       let schema = [(''type'', PStr ''section''), (''text'', mrkdwn_object section_text)];
           ty = kw_get kw ''type'';
           accessory = (\<lambda>f. bindE (f kw) (\<lambda>a.
                          Inr (PDict (dict_unpack [schema, [(''accessory'', a)]]))))
       in if \<not> py_truthy ty then Inr (PDict schema)
          else if ty = PStr ''button'' then accessory button
          else if ty = PStr ''image'' then accessory image
          else if ty = PStr ''datepicker'' then accessory datepicker
          else if ty = PStr ''timepicker'' then accessory timepicker
          else if ty = PStr ''static_select'' \<or> ty = PStr ''multi_static_select''
            then accessory static_select
          else if ty = PStr ''users_select'' \<or> ty = PStr ''multi_users_select''
            then accessory users_select
          else if ty = PStr ''checkboxes'' then accessory checkboxes
          else if ty = PStr ''radio_buttons'' then accessory radio_buttons
          else if ty = PStr ''overflow'' then accessory overflow
          else if ty = PStr ''fields'' then
            bindE (kw_sub kw ''fields_list'') (\<lambda>fields_list.
            bindE (py_iter fields_list) (\<lambda>items.
            bindE (mapE (\<lambda>item. Inr (mrkdwn_object item)) items) (\<lambda>fields.
              Inr (PDict [(''type'', PStr ''section''), (''fields'', PList fields)]))))
          else Inr (PDict schema))"

definition input_type :: "kwargs \<Rightarrow> pyval result" where
  "input_type kw =
     bindE (kw_sub kw ''type'') (\<lambda>ty.
       let schema = [(''type'', PStr ''input'')];
           element = (\<lambda>f. bindE (f kw) (\<lambda>e. Inr (dict_unpack [schema, [(''element'', e)]])))
       in bindE
         (if ty = PStr ''plain_text_input'' then element plain_text_input
          else if ty = PStr ''datepicker'' then element datepicker
          else if ty = PStr ''timepicker'' then element timepicker
          else if ty = PStr ''static_select'' \<or> ty = PStr ''multi_static_select''
            then element static_select
          else if ty = PStr ''conversations_select'' \<or> ty = PStr ''multi_conversations_select''
            then element conversations_select
          else if ty = PStr ''channels_select'' \<or> ty = PStr ''multi_channels_select''
            then element channels_select
          else if ty = PStr ''users_select'' \<or> ty = PStr ''multi_users_select''
            then element users_select
          else if ty = PStr ''checkboxes'' then element checkboxes
          else if ty = PStr ''radio_buttons'' then element radio_buttons
          else Inr schema)
         (\<lambda>schema.
            let schema = add_if_given kw ''optional'' ''optional'' id schema
            in bindE (kw_sub kw ''label'') (\<lambda>label.
                 Inr (PDict (dict_unpack [schema, [(''label'', plain_text_object label)]])))))"

text \<open>The specification's discriminator tables (section 4.1): the accessory kinds
  of a section and the element kinds of an input block, each with the builder it
  selects.\<close>

definition accessory_table :: "(string \<times> (kwargs \<Rightarrow> pyval result)) list" where
  "accessory_table =
     [(''button'', button), (''image'', image), (''datepicker'', datepicker),
      (''timepicker'', timepicker), (''static_select'', static_select),
      (''multi_static_select'', static_select), (''users_select'', users_select),
      (''multi_users_select'', users_select), (''checkboxes'', checkboxes),
      (''radio_buttons'', radio_buttons), (''overflow'', overflow)]"

definition input_table :: "(string \<times> (kwargs \<Rightarrow> pyval result)) list" where
  "input_table =
     [(''plain_text_input'', plain_text_input), (''datepicker'', datepicker),
      (''timepicker'', timepicker), (''static_select'', static_select),
      (''multi_static_select'', static_select),
      (''conversations_select'', conversations_select),
      (''multi_conversations_select'', conversations_select),
      (''channels_select'', channels_select), (''multi_channels_select'', channels_select),
      (''checkboxes'', checkboxes), (''radio_buttons'', radio_buttons)]"

fun dispatch :: "(string \<times> 'f) list \<Rightarrow> pyval \<Rightarrow> 'f option" where
  "dispatch t (PStr s) = map_of t s"
| "dispatch t _ = None"

section \<open>Lemmas\<close>

lemma dispatch_Some:
  "dispatch t ty = Some f \<Longrightarrow> \<exists>s. ty = PStr s \<and> map_of t s = Some f"
  by (cases ty) auto

lemma map_of_accessory_table:
  "map_of accessory_table s = Some f \<Longrightarrow>
     (s = ''button'' \<and> f = button) \<or> (s = ''image'' \<and> f = image) \<or>
     (s = ''datepicker'' \<and> f = datepicker) \<or> (s = ''timepicker'' \<and> f = timepicker) \<or>
     ((s = ''static_select'' \<or> s = ''multi_static_select'') \<and> f = static_select) \<or>
     ((s = ''users_select'' \<or> s = ''multi_users_select'') \<and> f = users_select) \<or>
     (s = ''checkboxes'' \<and> f = checkboxes) \<or> (s = ''radio_buttons'' \<and> f = radio_buttons) \<or>
     (s = ''overflow'' \<and> f = overflow)"
  unfolding accessory_table_def by (simp split: if_splits)

lemma accessory_table_None:
  "map_of accessory_table s = None \<Longrightarrow>
     s \<noteq> ''button'' \<and> s \<noteq> ''image'' \<and> s \<noteq> ''datepicker'' \<and> s \<noteq> ''timepicker'' \<and>
     s \<noteq> ''static_select'' \<and> s \<noteq> ''multi_static_select'' \<and> s \<noteq> ''users_select'' \<and>
     s \<noteq> ''multi_users_select'' \<and> s \<noteq> ''checkboxes'' \<and> s \<noteq> ''radio_buttons'' \<and>
     s \<noteq> ''overflow''"
  unfolding accessory_table_def map_of_eq_None_iff by simp

lemma input_table_None:
  "map_of input_table s = None \<Longrightarrow>
     s \<noteq> ''plain_text_input'' \<and> s \<noteq> ''datepicker'' \<and> s \<noteq> ''timepicker'' \<and>
     s \<noteq> ''static_select'' \<and> s \<noteq> ''multi_static_select'' \<and> s \<noteq> ''conversations_select'' \<and>
     s \<noteq> ''multi_conversations_select'' \<and> s \<noteq> ''channels_select'' \<and>
     s \<noteq> ''multi_channels_select'' \<and> s \<noteq> ''checkboxes'' \<and> s \<noteq> ''radio_buttons''"
  unfolding input_table_def map_of_eq_None_iff by simp

lemma map_of_input_table:
  "map_of input_table s = Some f \<Longrightarrow>
     (s = ''plain_text_input'' \<and> f = plain_text_input) \<or> (s = ''datepicker'' \<and> f = datepicker) \<or>
     (s = ''timepicker'' \<and> f = timepicker) \<or>
     ((s = ''static_select'' \<or> s = ''multi_static_select'') \<and> f = static_select) \<or>
     ((s = ''conversations_select'' \<or> s = ''multi_conversations_select'') \<and> f = conversations_select) \<or>
     ((s = ''channels_select'' \<or> s = ''multi_channels_select'') \<and> f = channels_select) \<or>
     (s = ''checkboxes'' \<and> f = checkboxes) \<or> (s = ''radio_buttons'' \<and> f = radio_buttons)"
  unfolding input_table_def by (simp split: if_splits)

lemma input_type_element:
  assumes ty: "map_of kw ''type'' = Some ty"
    and f: "dispatch input_table ty = Some f \<or>
            (f = users_select \<and> (ty = PStr ''users_select'' \<or> ty = PStr ''multi_users_select''))"
  shows "input_type kw =
           bindE (f kw) (\<lambda>e. bindE (kw_sub kw ''label'') (\<lambda>label.
             Inr (PDict ([(''type'', PStr ''input''), (''element'', e)] @
                         (if py_truthy (kw_get kw ''optional'')
                          then [(''optional'', kw_get kw ''optional'')] else []) @
                         [(''label'', plain_text_object label)]))))"
  using f
proof
  assume "dispatch input_table ty = Some f"
  from dispatch_Some [OF this] obtain s where s: "ty = PStr s" and "map_of input_table s = Some f"
    by blast
  from map_of_input_table [OF this(2)] show ?thesis
    by (elim disjE conjE)
       (simp_all add: input_type_def ty s kw_sub_Some add_if_given_fresh dict_unpack_disjoint)
next
  assume "f = users_select \<and> (ty = PStr ''users_select'' \<or> ty = PStr ''multi_users_select'')"
  then show ?thesis
    by (elim disjE conjE)
       (simp_all add: input_type_def ty kw_sub_Some add_if_given_fresh dict_unpack_disjoint)
qed


text \<open>The if/elif chain of \<open>section\<close> is the table lookup: an accessory when
  the table lists the discriminator, the fields section for \<open>'fields'\<close>, the text
  section otherwise.\<close>

lemma section_block_table:
  "section_block kw =
     bindE (kw_sub kw ''section_text'') (\<lambda>st.
       case dispatch accessory_table (kw_get kw ''type'') of
         Some f \<Rightarrow> bindE (f kw) (\<lambda>a.
           Inr (PDict [(''type'', PStr ''section''), (''text'', mrkdwn_object st), (''accessory'', a)]))
       | None \<Rightarrow>
           if kw_get kw ''type'' = PStr ''fields'' then
             bindE (kw_sub kw ''fields_list'') (\<lambda>fields_list.
             bindE (py_iter fields_list) (\<lambda>items.
               Inr (PDict [(''type'', PStr ''section''), (''fields'', PList (map mrkdwn_object items))])))
           else Inr (PDict [(''type'', PStr ''section''), (''text'', mrkdwn_object st)]))"
proof (cases "kw_get kw ''type''")
  case (PStr s)
  show ?thesis
  proof (cases "map_of accessory_table s")
    case None
    from accessory_table_None [OF None] PStr None show ?thesis
      by (cases "s = []") (simp_all add: section_block_def Let_def mapE_Inr_map cong: if_cong)
  next
    case (Some f)
    from map_of_accessory_table [OF this] PStr Some show ?thesis
      by (elim disjE conjE) (simp_all add: section_block_def dict_unpack_disjoint)
  qed
qed (simp_all add: section_block_def Let_def cong: if_cong)

lemma input_type_plain:
  assumes "map_of kw ''type'' = Some ty" and "dispatch input_table ty = None"
    and "ty \<noteq> PStr ''users_select''" and "ty \<noteq> PStr ''multi_users_select''"
  shows "input_type kw =
           bindE (kw_sub kw ''label'') (\<lambda>label.
             Inr (PDict ([(''type'', PStr ''input'')] @ opt_item kw ''optional'' ''optional'' id @
                         [(''label'', plain_text_object label)])))"
proof (cases ty)
  case (PStr s)
  with assms input_table_None [of s] show ?thesis
    by (simp add: input_type_def kw_sub_Some add_if_given_opt_item opt_item_def dict_unpack_disjoint)
qed (use assms in \<open>simp_all add: input_type_def kw_sub_Some add_if_given_opt_item opt_item_def
                                  dict_unpack_disjoint Let_def\<close>)

lemma pv_nonull_section_block:
  assumes wf: "list_all (\<lambda>kv. pv_nonull (snd kv)) kw" and r: "section_block kw = Inr d"
  shows "pv_nonull d"
proof -
  from r obtain st where st: "kw_sub kw ''section_text'' = Inr st"
    and rest: "(case dispatch accessory_table (kw_get kw ''type'') of
         Some f \<Rightarrow> bindE (f kw) (\<lambda>a.
           Inr (PDict [(''type'', PStr ''section''), (''text'', mrkdwn_object st), (''accessory'', a)]))
       | None \<Rightarrow>
           if kw_get kw ''type'' = PStr ''fields'' then
             bindE (kw_sub kw ''fields_list'') (\<lambda>fields_list.
             bindE (py_iter fields_list) (\<lambda>items.
               Inr (PDict [(''type'', PStr ''section''), (''fields'', PList (map mrkdwn_object items))])))
           else Inr (PDict [(''type'', PStr ''section''), (''text'', mrkdwn_object st)])) = Inr d"
    unfolding section_block_table by (auto simp: bindE_eq_Inr_iff)
  have st_wf: "pv_nonull st" using pv_nonull_kw_sub [OF wf st] .
  show ?thesis
  proof (cases "dispatch accessory_table (kw_get kw ''type'')")
    case (Some f)
    from dispatch_Some [OF Some] obtain s where "map_of accessory_table s = Some f" by blast
    from map_of_accessory_table [OF this] have "f kw = Inr a \<Longrightarrow> pv_nonull a" for a
      using pv_nonull_elements [OF wf] by blast
    with Some rest st_wf show ?thesis by (auto simp: bindE_eq_Inr_iff)
  next
    case None
    show ?thesis
    proof (cases "kw_get kw ''type'' = PStr ''fields''")
      case True
      with None rest obtain fl items where fl: "kw_sub kw ''fields_list'' = Inr fl"
        and it: "py_iter fl = Inr items"
        and d: "d = PDict [(''type'', PStr ''section''), (''fields'', PList (map mrkdwn_object items))]"
        by (auto simp: bindE_eq_Inr_iff)
      from pv_nonull_py_iter [OF pv_nonull_kw_sub [OF wf fl] it] d show ?thesis
        by (simp add: list_all_iff)
    next
      case False
      with None rest st_wf show ?thesis by auto
    qed
  qed
qed

lemma pv_nonull_input_type:
  assumes wf: "list_all (\<lambda>kv. pv_nonull (snd kv)) kw" and r: "input_type kw = Inr d"
  shows "pv_nonull d"
proof (cases "map_of kw ''type''")
  case None
  with r show ?thesis by (simp add: input_type_def kw_sub_def)
next
  case (Some ty)
  have label: "kw_sub kw ''label'' = Inr l \<Longrightarrow> pv_nonull l" for l by (rule pv_nonull_kw_sub [OF wf])
  have opt: "py_truthy (kw_get kw ''optional'') \<Longrightarrow> pv_nonull (kw_get kw ''optional'')"
    by (rule pv_nonull_kw_get [OF wf])
  have element: "pv_nonull d"
    if g_wf: "\<And>e. g kw = Inr e \<Longrightarrow> pv_nonull e"
      and g: "dispatch input_table ty = Some g \<or>
              (g = users_select \<and> (ty = PStr ''users_select'' \<or> ty = PStr ''multi_users_select''))"
    for g
  proof -
    from r have "bindE (g kw) (\<lambda>e. bindE (kw_sub kw ''label'') (\<lambda>label.
             Inr (PDict ([(''type'', PStr ''input''), (''element'', e)] @
                         (if py_truthy (kw_get kw ''optional'')
                          then [(''optional'', kw_get kw ''optional'')] else []) @
                         [(''label'', plain_text_object label)])))) = Inr d"
      by (simp add: input_type_element [OF Some g])
    with g_wf label opt show ?thesis by (auto simp: bindE_eq_Inr_iff)
  qed
  consider (tab) f where "dispatch input_table ty = Some f"
    | (users) "ty = PStr ''users_select'' \<or> ty = PStr ''multi_users_select''"
    | (plain) "dispatch input_table ty = None" "ty \<noteq> PStr ''users_select''"
              "ty \<noteq> PStr ''multi_users_select''"
    by (cases "dispatch input_table ty") auto
  then show ?thesis
  proof cases
    case (tab f)
    from dispatch_Some [OF tab] obtain s where "map_of input_table s = Some f" by blast
    from map_of_input_table [OF this] have f_wf: "f kw = Inr e \<Longrightarrow> pv_nonull e" for e
      using pv_nonull_elements [OF wf] by blast
    show ?thesis by (rule element [of f, OF f_wf]) (simp_all add: tab)
  next
    case users
    show ?thesis by (rule element [of users_select, OF pv_nonull_elements(5) [OF wf]]) (simp_all add: users)
  next
    case plain
    from r have "bindE (kw_sub kw ''label'') (\<lambda>label.
             Inr (PDict ([(''type'', PStr ''input'')] @ opt_item kw ''optional'' ''optional'' id @
                         [(''label'', plain_text_object label)]))) = Inr d"
      by (simp add: input_type_plain [OF Some plain])
    with label opt show ?thesis by (auto simp: bindE_eq_Inr_iff opt_item_def)
  qed
qed

text \<open>C3: Refinement of the specification's accessory table: for every
  discriminator the table lists, \<open>section\<close> returns
  \<open>{type: 'section', text: mrkdwn(section_text), accessory: f(**kwargs)}\<close> with \<open>f\<close>
  the builder the table names, and raises what \<open>f\<close> raises.\<close>

theorem section_dispatch:
  assumes "map_of kw ''section_text'' = Some st"
    and "dispatch accessory_table (kw_get kw ''type'') = Some f"
  shows "section_block kw =
           bindE (f kw) (\<lambda>a. Inr (PDict [(''type'', PStr ''section''), (''text'', mrkdwn_object st),
                                         (''accessory'', a)]))"
proof -
  from dispatch_Some [OF assms(2)] obtain s where ty: "kw_get kw ''type'' = PStr s"
    and f: "map_of accessory_table s = Some f"
    by blast
  from map_of_accessory_table [OF f] show ?thesis
    by (elim disjE conjE) (simp_all add: section_block_def assms(1) ty kw_sub_Some dict_unpack_disjoint)
qed

theorem section_dispatch_witness:
  "section_block [(''section_text'', PStr ''Pick''), (''type'', PStr ''datepicker''),
                  (''action_id'', PStr ''d1'')] =
     Inr (PDict [(''type'', PStr ''section''), (''text'', mrkdwn_object (PStr ''Pick'')),
                 (''accessory'', PDict [(''type'', PStr ''datepicker''), (''action_id'', PStr ''d1'')])])"
proof -
  have "dispatch accessory_table (kw_get [(''section_text'', PStr ''Pick''), (''type'', PStr ''datepicker''),
                  (''action_id'', PStr ''d1'')] ''type'') = Some datepicker"
    by (simp add: accessory_table_def kw_get_def)
  from section_dispatch [OF _ this, of "PStr ''Pick''"] show ?thesis
    by (simp add: datepicker_def kw_sub_def kw_get_def add_if_given_def)
qed

text \<open>C11: In fields mode (\<open>type = 'fields'\<close>) \<open>section\<close> returns
  \<open>{type: 'section', fields: [mrkdwn(item) for item in fields_list]}\<close>, which has no
  \<open>text\<close>; yet \<open>section_text\<close> is still read first, so a fields section without it
  raises \<open>KeyError('section_text')\<close>.\<close>

theorem section_fields_mode:
  assumes "kw_get kw ''type'' = PStr ''fields''" and "map_of kw ''fields_list'' = Some (PList xs)"
  shows "section_block kw =
           (case map_of kw ''section_text'' of
              None \<Rightarrow> Inl (KeyError (PStr ''section_text''))
            | Some st \<Rightarrow> Inr (PDict [(''type'', PStr ''section''),
                                     (''fields'', PList (map mrkdwn_object xs))]))"
  using assms
  by (cases "map_of kw ''section_text''") (simp_all add: section_block_table kw_sub_def accessory_table_def)

theorem section_fields_mode_witness:
  "section_block [(''type'', PStr ''fields''), (''fields_list'', PList [PStr ''a'', PStr ''b''])] =
     Inl (KeyError (PStr ''section_text'')) \<and>
   section_block [(''section_text'', PStr ''t''), (''type'', PStr ''fields''),
                  (''fields_list'', PList [PStr ''a''])] =
     Inr (PDict [(''type'', PStr ''section''), (''fields'', PList [mrkdwn_object (PStr ''a'')])])"
  using section_fields_mode [of "[(''type'', PStr ''fields''), (''fields_list'', PList [PStr ''a'', PStr ''b''])]"
                                "[PStr ''a'', PStr ''b'']"]
        section_fields_mode [of "[(''section_text'', PStr ''t''), (''type'', PStr ''fields''),
                                  (''fields_list'', PList [PStr ''a''])]" "[PStr ''a'']"]
  by (simp add: kw_get_def)

text \<open>C12: A discriminator outside the accessory table and other than
  \<open>'fields'\<close> (a misspelt kind, \<open>'conversations_select'\<close>, a non-string) raises
  nothing: \<open>section\<close> silently returns the plain text section, with no
  accessory.\<close>

theorem section_unknown_type:
  assumes "map_of kw ''section_text'' = Some st"
    and "dispatch accessory_table (kw_get kw ''type'') = None"
    and "kw_get kw ''type'' \<noteq> PStr ''fields''"
  shows "section_block kw =
           Inr (PDict [(''type'', PStr ''section''), (''text'', mrkdwn_object st)])"
  using assms by (simp add: section_block_table kw_sub_Some)

theorem section_unknown_type_witness:
  "section_block [(''section_text'', PStr ''Hi''), (''type'', PStr ''conversations_select''),
                  (''action_id'', PStr ''c'')] =
     Inr (PDict [(''type'', PStr ''section''), (''text'', mrkdwn_object (PStr ''Hi''))])"
  by (rule section_unknown_type) (simp_all add: kw_get_def accessory_table_def)

text \<open>C4: Refinement of the specification's input-element table: for every
  discriminator it lists, \<open>input_type\<close> returns
  \<open>{type: 'input', element: f(**kwargs), optional?, label: plain_text(label)}\<close>, with
  \<open>optional\<close> present exactly when it is truthy.\<close>

theorem input_dispatch:
  assumes "map_of kw ''type'' = Some ty" and "dispatch input_table ty = Some f"
  shows "input_type kw =
           bindE (f kw) (\<lambda>e. bindE (kw_sub kw ''label'') (\<lambda>label.
             Inr (PDict ([(''type'', PStr ''input''), (''element'', e)] @
                         (if py_truthy (kw_get kw ''optional'')
                          then [(''optional'', kw_get kw ''optional'')] else []) @
                         [(''label'', plain_text_object label)]))))"
proof -
  from dispatch_Some [OF assms(2)] obtain s where s: "ty = PStr s" and f: "map_of input_table s = Some f"
    by blast
  from map_of_input_table [OF f] show ?thesis
    by (elim disjE conjE)
       (simp_all add: input_type_def assms(1) s kw_sub_Some add_if_given_fresh dict_unpack_disjoint)
qed

theorem input_dispatch_witness:
  "input_type [(''type'', PStr ''plain_text_input''), (''action_id'', PStr ''name''),
               (''label'', PStr ''Name''), (''optional'', PBool True)] =
     Inr (PDict [(''type'', PStr ''input''),
                 (''element'', PDict [(''type'', PStr ''plain_text_input''), (''action_id'', PStr ''name'')]),
                 (''optional'', PBool True), (''label'', plain_text_object (PStr ''Name''))])"
  using input_dispatch [of "[(''type'', PStr ''plain_text_input''), (''action_id'', PStr ''name''),
               (''label'', PStr ''Name''), (''optional'', PBool True)]" "PStr ''plain_text_input''"
               plain_text_input]
  by (simp add: input_table_def plain_text_input_def kw_sub_def kw_get_def add_if_given_def)

text \<open>C15: \<open>input_type\<close> also accepts \<open>users_select\<close> and
  \<open>multi_users_select\<close>, which the specification's input table omits, and embeds a
  users select for them.\<close>

theorem input_type_users_select:
  assumes "map_of kw ''type'' = Some ty"
    and "ty = PStr ''users_select'' \<or> ty = PStr ''multi_users_select''"
  shows "dispatch input_table ty = None \<and>
         input_type kw =
           bindE (users_select kw) (\<lambda>e. bindE (kw_sub kw ''label'') (\<lambda>label.
             Inr (PDict ([(''type'', PStr ''input''), (''element'', e)] @
                         (if py_truthy (kw_get kw ''optional'')
                          then [(''optional'', kw_get kw ''optional'')] else []) @
                         [(''label'', plain_text_object label)]))))"
  using assms by (auto simp: input_table_def input_type_element)

theorem input_type_users_select_witness:
  "input_type [(''type'', PStr ''users_select''), (''action_id'', PStr ''u''), (''label'', PStr ''Who'')] =
     Inr (PDict [(''type'', PStr ''input''),
                 (''element'', PDict [(''type'', PStr ''users_select''), (''action_id'', PStr ''u'')]),
                 (''label'', plain_text_object (PStr ''Who''))])"
  using input_type_users_select [of "[(''type'', PStr ''users_select''), (''action_id'', PStr ''u''),
                                      (''label'', PStr ''Who'')]" "PStr ''users_select''"]
  by (simp add: users_select_def kw_sub_def kw_get_def add_if_given_def)

text \<open>C14: A discriminator that selects no element (outside the chain, including
  non-strings) raises nothing: given a \<open>label\<close>, \<open>input_type\<close> returns the
  input block with the keys \<open>type\<close>, \<open>optional\<close> (when truthy) and
  \<open>label\<close>, and no \<open>element\<close>.\<close>

theorem input_type_no_element:
  assumes "map_of kw ''type'' = Some ty" and "dispatch input_table ty = None"
    and "ty \<noteq> PStr ''users_select''" and "ty \<noteq> PStr ''multi_users_select''"
    and "map_of kw ''label'' = Some l"
  shows "input_type kw =
           Inr (PDict ([(''type'', PStr ''input'')] @ opt_item kw ''optional'' ''optional'' id @
                       [(''label'', plain_text_object l)]))"
  by (simp add: input_type_plain [OF assms(1-4)] kw_sub_Some [OF assms(5)])

theorem input_type_no_element_witness:
  "input_type [(''type'', PStr ''textarea''), (''label'', PStr ''Notes'')] =
     Inr (PDict [(''type'', PStr ''input''), (''label'', plain_text_object (PStr ''Notes''))])"
proof -
  have "input_type [(''type'', PStr ''textarea''), (''label'', PStr ''Notes'')] =
          Inr (PDict ([(''type'', PStr ''input'')] @
                      opt_item [(''type'', PStr ''textarea''), (''label'', PStr ''Notes'')]
                        ''optional'' ''optional'' id @
                      [(''label'', plain_text_object (PStr ''Notes''))]))"
    by (rule input_type_no_element) (simp add: input_table_def)+
  then show ?thesis by (simp add: opt_item_def kw_get_def)
qed

text \<open>C13: The errors of \<open>input_type\<close> come in evaluation order: a missing
  \<open>type\<close> raises \<open>KeyError('type')\<close>; otherwise an error of the selected
  element builder wins over a missing \<open>label\<close>, which is read last.\<close>

theorem input_type_errors:
  "(map_of kw ''type'' = None \<longrightarrow> input_type kw = Inl (KeyError (PStr ''type''))) \<and>
   (map_of kw ''type'' = Some ty \<and> dispatch input_table ty = Some f \<and> f kw = Inl e \<longrightarrow>
      input_type kw = Inl e)"
proof (intro conjI impI)
  assume "map_of kw ''type'' = None"
  then show "input_type kw = Inl (KeyError (PStr ''type''))"
    by (simp add: input_type_def kw_sub_def)
next
  assume "map_of kw ''type'' = Some ty \<and> dispatch input_table ty = Some f \<and> f kw = Inl e"
  then show "input_type kw = Inl e"
    using input_type_element [of kw ty f] by simp
qed

theorem input_type_errors_witness:
  "input_type [(''type'', PStr ''datepicker'')] = Inl (KeyError (PStr ''action_id''))"
proof -
  have "datepicker [(''type'', PStr ''datepicker'')] = Inl (KeyError (PStr ''action_id''))"
    by (simp add: datepicker_def kw_sub_def)
  with input_type_errors [of "[(''type'', PStr ''datepicker'')]" "PStr ''datepicker''" datepicker
                             "KeyError (PStr ''action_id'')"]
  show ?thesis by (simp add: input_table_def)
qed


text \<open>C27: Safety: every section the code returns has exactly one of a
  \<open>text\<close> and a \<open>fields\<close> key, and a fields section never carries an
  accessory: the combination the specification rejects as \<open>InvalidCombination\<close>
  is never produced (the code drops the accessory instead of raising).\<close>

theorem section_text_xor_fields:
  assumes "section_block kw = Inr d"
  shows "(pv_field d ''text'' = None) = (pv_field d ''fields'' \<noteq> None) \<and>
         (pv_field d ''fields'' \<noteq> None \<longrightarrow> pv_field d ''accessory'' = None)"
  using assms
  by (auto simp: section_block_table bindE_eq_Inr_iff split: option.splits if_splits)

theorem section_text_xor_fields_witness:
  "section_block [(''section_text'', PStr ''t''), (''type'', PStr ''fields''),
                  (''fields_list'', PList [PStr ''a''])] =
     Inr (PDict [(''type'', PStr ''section''), (''fields'', PList [mrkdwn_object (PStr ''a'')])]) \<and>
   pv_field (PDict [(''type'', PStr ''section''), (''fields'', PList [mrkdwn_object (PStr ''a'')])])
     ''accessory'' = None"
proof -
  have r: "section_block [(''section_text'', PStr ''t''), (''type'', PStr ''fields''),
                          (''fields_list'', PList [PStr ''a''])] =
     Inr (PDict [(''type'', PStr ''section''), (''fields'', PList [mrkdwn_object (PStr ''a'')])])"
    by (simp add: section_block_def kw_sub_def kw_get_def Let_def)
  from r section_text_xor_fields [OF r] show ?thesis by simp
qed

text \<open>C28: Type agreement: an element that \<open>section\<close> or \<open>input_type\<close>
  builds for the discriminator \<open>s\<close> is tagged \<open>type: s\<close>, so the platform
  reads it as the kind the caller selected (the selects take their tag from the
  same keyword, the other builders write the one the table pairs with them).\<close>

theorem dispatched_element_type:
  assumes "map_of kw ''type'' = Some (PStr s)"
    and "map_of accessory_table s = Some f \<or> map_of input_table s = Some f"
    and "f kw = Inr e"
  shows "pv_field e ''type'' = Some (PStr s)"
  using assms(2)
proof
  assume "map_of accessory_table s = Some f"
  from map_of_accessory_table [OF this] assms(1,3) show ?thesis
    by (elim disjE conjE)
       (auto simp: element_eqs bindE_eq_Inr_iff kw_sub_def Let_def opt_item_def split: if_splits)
next
  assume "map_of input_table s = Some f"
  from map_of_input_table [OF this] assms(1,3) show ?thesis
    by (elim disjE conjE)
       (auto simp: element_eqs bindE_eq_Inr_iff kw_sub_def Let_def opt_item_def split: if_splits)
qed

theorem dispatched_element_type_witness:
  "map_of [(''type'', PStr ''multi_static_select''), (''options'', PList [PStr ''a'']),
           (''action_id'', PStr ''s'')] ''type'' = Some (PStr ''multi_static_select'') \<and>
   pv_field (PDict [(''type'', PStr ''multi_static_select''),
                    (''options'', PList [PDict [(''text'', plain_text_object (PStr ''a'')), (''value'', PStr ''a'')]]),
                    (''action_id'', PStr ''s'')]) ''type'' = Some (PStr ''multi_static_select'')"
proof -
  let ?kw = "[(''type'', PStr ''multi_static_select''), (''options'', PList [PStr ''a'']),
              (''action_id'', PStr ''s'')]"
  have t: "map_of ?kw ''type'' = Some (PStr ''multi_static_select'')" by simp
  have f: "map_of accessory_table ''multi_static_select'' = Some static_select"
    by (simp add: accessory_table_def)
  have e: "static_select ?kw =
     Inr (PDict [(''type'', PStr ''multi_static_select''),
                 (''options'', PList [PDict [(''text'', plain_text_object (PStr ''a'')), (''value'', PStr ''a'')]]),
                 (''action_id'', PStr ''s'')])"
    by (simp add: static_select_def kw_sub_def kw_get_def add_if_given_def option_items_def)
  from dispatched_element_type [where f = static_select, OF t disjI1 [OF f] e] t show ?thesis by simp
qed

end
