(* ===== verification/Abstract_Model.thy ===== *)
theory Abstract_Model
  imports Blocks
begin

text \<open>
  A typed model of the documents of the specification's data model (its
  section 3) and the refinement that the keyword builders of
  \<open>src/modal.py\<close> implement it.  An abstract \<open>element\<close> has one
  constructor per element builder with its fields typed (strings, optional
  strings, a confirmation dialog, a homogeneous non-empty option list);
  \<open>enc_element\<close> is the payload it stands for and \<open>element_kwargs\<close> the
  keyword arguments with which a caller asks the library for it.  The lemmas
  show that the builder selected by \<open>element_builder\<close> returns exactly
  \<open>enc_element\<close> on those arguments, whenever the optional strings are
  non-empty (the code tests optional keywords for truth), and that the encoding
  is injective: a payload determines the abstract element it encodes.
\<close>

section \<open>Definitions\<close>

datatype sel_kind = Single | Multi

text \<open>An option list as the two shapes \<open>option_items\<close> accepts: plain strings,
  or \<open>(text, description, value)\<close> records; never empty.\<close>

datatype opts = StrOpts string "string list" | RecOpts "string \<times> string \<times> string" "(string \<times> string \<times> string) list"

datatype confirm_spec = ConfirmSpec string string string string

datatype element =
    Button string string string "string option" "confirm_spec option"
  | PlainTextInput string "string option" bool
  | StaticSelect sel_kind opts string "string option"
  | ConversationsSelect sel_kind string "string option" "string option"
  | UsersSelect sel_kind string "string option" "string option"
  | ChannelsSelect sel_kind string "string option" "string option"
  | DatePicker string "string option" "string option"
  | TimePicker string "string option" "string option"
  | Checkboxes opts string
  | RadioButtons opts string
  | Overflow opts string
  | Image string string "string option"

definition opt_enc :: "string \<Rightarrow> ('a \<Rightarrow> pyval) \<Rightarrow> 'a option \<Rightarrow> pdict" where
  "opt_enc key f x = (case x of None \<Rightarrow> [] | Some y \<Rightarrow> [(key, f y)])"

fun sel_tag :: "sel_kind \<Rightarrow> string \<Rightarrow> string" where
  "sel_tag Single s = s @ ''_select''"
| "sel_tag Multi s = ''multi_'' @ s @ ''_select''"

fun opts_arg :: "opts \<Rightarrow> pyval" where
  "opts_arg (StrOpts s ss) = PList (map PStr (s # ss))"
| "opts_arg (RecOpts r rs) =
     PList (map (\<lambda>(t, d, v). PDict [(''text'', PStr t), (''description'', PStr d), (''value'', PStr v)])
                (r # rs))"

fun enc_opts :: "opts \<Rightarrow> pyval list" where
  "enc_opts (StrOpts s ss) =
     map (\<lambda>s. PDict [(''text'', plain_text_object (PStr s)), (''value'', PStr s)]) (s # ss)"
| "enc_opts (RecOpts r rs) =
     map (\<lambda>(t, d, v). PDict [(''text'', mrkdwn_object (PStr t)),
                             (''description'', mrkdwn_object (PStr d)), (''value'', PStr v)])
         (r # rs)"

fun enc_confirm :: "confirm_spec \<Rightarrow> pyval" where
  "enc_confirm (ConfirmSpec t x a d) =
     PDict [(''title'', PDict [(''type'', PStr ''plain_text''), (''text'', PStr t)]),
            (''text'', PDict [(''type'', PStr ''mrkdwn''), (''text'', PStr x)]),
            (''confirm'', PDict [(''type'', PStr ''plain_text''), (''text'', PStr a)]),
            (''deny'', PDict [(''type'', PStr ''plain_text''), (''text'', PStr d)])]"

fun confirm_args :: "confirm_spec option \<Rightarrow> kwargs" where
  "confirm_args None = []"
| "confirm_args (Some (ConfirmSpec t x a d)) =
     [(''confirm_title'', PStr t), (''confirm_text'', PStr x),
      (''confirm_approve_text'', PStr a), (''confirm_deny_text'', PStr d)]"

text \<open>The discriminator naming each element, as \<open>section\<close> and
  \<open>input_type\<close> read it from \<open>kwargs['type']\<close>.\<close>

fun element_tag :: "element \<Rightarrow> string" where
  "element_tag (Button _ _ _ _ _) = ''button''"
| "element_tag (PlainTextInput _ _ _) = ''plain_text_input''"
| "element_tag (StaticSelect k _ _ _) = sel_tag k ''static''"
| "element_tag (ConversationsSelect k _ _ _) = sel_tag k ''conversations''"
| "element_tag (UsersSelect k _ _ _) = sel_tag k ''users''"
| "element_tag (ChannelsSelect k _ _ _) = sel_tag k ''channels''"
| "element_tag (DatePicker _ _ _) = ''datepicker''"
| "element_tag (TimePicker _ _ _) = ''timepicker''"
| "element_tag (Checkboxes _ _) = ''checkboxes''"
| "element_tag (RadioButtons _ _) = ''radio_buttons''"
| "element_tag (Overflow _ _) = ''overflow''"
| "element_tag (Image _ _ _) = ''image''"

text \<open>The payload an abstract element stands for: the keys in the order the
  builders write them, each optional key present exactly when its field is set.\<close>

fun enc_element :: "element \<Rightarrow> pyval" where
  "enc_element (Button t v a u c) =
     PDict ([(''type'', PStr ''button''), (''text'', plain_text_object (PStr t)), (''value'', PStr v),
             (''action_id'', PStr a)] @ opt_enc ''url'' PStr u @ opt_enc ''confirm'' enc_confirm c)"
| "enc_element (PlainTextInput a p m) =
     PDict ([(''type'', PStr ''plain_text_input''), (''action_id'', PStr a)] @
            opt_enc ''placeholder'' (\<lambda>s. plain_text_object (PStr s)) p @
            (if m then [(''multiline'', PBool True)] else []))"
| "enc_element (StaticSelect k os a p) =
     PDict ([(''type'', PStr (sel_tag k ''static'')), (''options'', PList (enc_opts os)), (''action_id'', PStr a)] @
            opt_enc ''placeholder'' (\<lambda>s. plain_text_object (PStr s)) p)"
| "enc_element (ConversationsSelect k a p i) =
     PDict ([(''type'', PStr (sel_tag k ''conversations'')), (''action_id'', PStr a)] @
            opt_enc ''placeholder'' (\<lambda>s. plain_text_object (PStr s)) p @ opt_enc ''initial_user'' PStr i)"
| "enc_element (UsersSelect k a p i) =
     PDict ([(''type'', PStr (sel_tag k ''users'')), (''action_id'', PStr a)] @
            opt_enc ''placeholder'' (\<lambda>s. plain_text_object (PStr s)) p @ opt_enc ''initial_user'' PStr i)"
| "enc_element (ChannelsSelect k a p i) =
     PDict ([(''type'', PStr (sel_tag k ''channels'')), (''action_id'', PStr a)] @
            opt_enc ''placeholder'' (\<lambda>s. plain_text_object (PStr s)) p @ opt_enc ''initial_channel'' PStr i)"
| "enc_element (DatePicker a p i) =
     PDict ([(''type'', PStr ''datepicker''), (''action_id'', PStr a)] @
            opt_enc ''placeholder'' (\<lambda>s. plain_text_object (PStr s)) p @ opt_enc ''initial_date'' PStr i)"
| "enc_element (TimePicker a p i) =
     PDict ([(''type'', PStr ''timepicker''), (''action_id'', PStr a)] @
            opt_enc ''placeholder'' (\<lambda>s. plain_text_object (PStr s)) p @ opt_enc ''initial_time'' PStr i)"
| "enc_element (Checkboxes os a) =
     PDict [(''type'', PStr ''checkboxes''), (''options'', PList (enc_opts os)), (''action_id'', PStr a)]"
| "enc_element (RadioButtons os a) =
     PDict [(''type'', PStr ''radio_buttons''), (''options'', PList (enc_opts os)), (''action_id'', PStr a)]"
| "enc_element (Overflow os a) =
     PDict [(''type'', PStr ''overflow''), (''options'', PList (enc_opts os)), (''action_id'', PStr a)]"
| "enc_element (Image url alt t) =
     PDict ([(''type'', PStr ''image''), (''image_url'', PStr url), (''alt_text'', PStr alt)] @
            opt_enc ''title'' (\<lambda>s. plain_text_object (PStr s)) t)"

text \<open>The keyword arguments a caller passes for an abstract element; \<open>type\<close> is
  always passed, so the same arguments also serve \<open>section\<close> and
  \<open>input_type\<close>.\<close>

fun element_kwargs :: "element \<Rightarrow> kwargs" where
  "element_kwargs (Button t v a u c) =
     [(''type'', PStr ''button''), (''text'', PStr t), (''value'', PStr v), (''action_id'', PStr a)] @
     opt_enc ''url'' PStr u @ confirm_args c"
| "element_kwargs (PlainTextInput a p m) =
     [(''type'', PStr ''plain_text_input''), (''action_id'', PStr a)] @ opt_enc ''placeholder'' PStr p @
     (if m then [(''multiline'', PBool True)] else [])"
| "element_kwargs (StaticSelect k os a p) =
     [(''type'', PStr (sel_tag k ''static'')), (''options'', opts_arg os), (''action_id'', PStr a)] @
     opt_enc ''placeholder'' PStr p"
| "element_kwargs (ConversationsSelect k a p i) =
     [(''type'', PStr (sel_tag k ''conversations'')), (''action_id'', PStr a)] @
     opt_enc ''placeholder'' PStr p @ opt_enc ''initial_convo'' PStr i"
| "element_kwargs (UsersSelect k a p i) =
     [(''type'', PStr (sel_tag k ''users'')), (''action_id'', PStr a)] @
     opt_enc ''placeholder'' PStr p @ opt_enc ''initial_user'' PStr i"
| "element_kwargs (ChannelsSelect k a p i) =
     [(''type'', PStr (sel_tag k ''channels'')), (''action_id'', PStr a)] @
     opt_enc ''placeholder'' PStr p @ opt_enc ''initial_channel'' PStr i"
| "element_kwargs (DatePicker a p i) =
     [(''type'', PStr ''datepicker''), (''action_id'', PStr a)] @
     opt_enc ''placeholder'' PStr p @ opt_enc ''initial_date'' PStr i"
| "element_kwargs (TimePicker a p i) =
     [(''type'', PStr ''timepicker''), (''action_id'', PStr a)] @
     opt_enc ''placeholder'' PStr p @ opt_enc ''initial_time'' PStr i"
| "element_kwargs (Checkboxes os a) =
     [(''type'', PStr ''checkboxes''), (''options'', opts_arg os), (''action_id'', PStr a)]"
| "element_kwargs (RadioButtons os a) =
     [(''type'', PStr ''radio_buttons''), (''options'', opts_arg os), (''action_id'', PStr a)]"
| "element_kwargs (Overflow os a) =
     [(''type'', PStr ''overflow''), (''options'', opts_arg os), (''action_id'', PStr a)]"
| "element_kwargs (Image url alt t) =
     [(''type'', PStr ''image''), (''image_url'', PStr url), (''alt_text'', PStr alt)] @
     opt_enc ''title'' PStr t"

fun element_builder :: "element \<Rightarrow> kwargs \<Rightarrow> pyval result" where
  "element_builder (Button _ _ _ _ _) = button"
| "element_builder (PlainTextInput _ _ _) = plain_text_input"
| "element_builder (StaticSelect _ _ _ _) = static_select"
| "element_builder (ConversationsSelect _ _ _ _) = conversations_select"
| "element_builder (UsersSelect _ _ _ _) = users_select"
| "element_builder (ChannelsSelect _ _ _ _) = channels_select"
| "element_builder (DatePicker _ _ _) = datepicker"
| "element_builder (TimePicker _ _ _) = timepicker"
| "element_builder (Checkboxes _ _) = checkboxes"
| "element_builder (RadioButtons _ _) = radio_buttons"
| "element_builder (Overflow _ _) = overflow"
| "element_builder (Image _ _ _) = image"

text \<open>Optional strings must be non-empty, as the specification requires of every
  given text: the code tests an optional keyword for truth, so an empty string is
  dropped.\<close>

fun given :: "string option \<Rightarrow> bool" where
  "given None = True"
| "given (Some s) = (s \<noteq> [])"

fun confirm_valid :: "confirm_spec option \<Rightarrow> bool" where
  "confirm_valid None = True"
| "confirm_valid (Some (ConfirmSpec t x a d)) = (t \<noteq> [] \<and> x \<noteq> [] \<and> a \<noteq> [] \<and> d \<noteq> [])"

fun element_valid :: "element \<Rightarrow> bool" where
  "element_valid (Button _ _ _ u c) = (given u \<and> confirm_valid c)"
| "element_valid (PlainTextInput _ p _) = given p"
| "element_valid (StaticSelect _ _ _ p) = given p"
| "element_valid (ConversationsSelect _ _ p i) = (given p \<and> given i)"
| "element_valid (UsersSelect _ _ p i) = (given p \<and> given i)"
| "element_valid (ChannelsSelect _ _ p i) = (given p \<and> given i)"
| "element_valid (DatePicker _ p i) = (given p \<and> given i)"
| "element_valid (TimePicker _ p i) = (given p \<and> given i)"
| "element_valid (Image _ _ t) = given t"
| "element_valid _ = True"

text \<open>The specification's two enumerations (its section 4.1): the elements a
  section may carry as accessory, and those an input block may embed (the code
  also accepts the users select, which the specification leaves out).\<close>

fun accessory_element :: "element \<Rightarrow> bool" where
  "accessory_element (Button _ _ _ _ _) = True"
| "accessory_element (Image _ _ _) = True"
| "accessory_element (DatePicker _ _ _) = True"
| "accessory_element (TimePicker _ _ _) = True"
| "accessory_element (StaticSelect _ _ _ _) = True"
| "accessory_element (UsersSelect _ _ _ _) = True"
| "accessory_element (Checkboxes _ _) = True"
| "accessory_element (RadioButtons _ _) = True"
| "accessory_element (Overflow _ _) = True"
| "accessory_element _ = False"

fun input_element :: "element \<Rightarrow> bool" where
  "input_element (PlainTextInput _ _ _) = True"
| "input_element (DatePicker _ _ _) = True"
| "input_element (TimePicker _ _ _) = True"
| "input_element (StaticSelect _ _ _ _) = True"
| "input_element (ConversationsSelect _ _ _ _) = True"
| "input_element (ChannelsSelect _ _ _ _) = True"
| "input_element (UsersSelect _ _ _ _) = True"
| "input_element (Checkboxes _ _) = True"
| "input_element (RadioButtons _ _) = True"
| "input_element _ = False"

text \<open>Blocks.  A fields section still has to be called with \<open>section_text\<close>,
  which it then drops; \<open>build_block\<close> passes the empty string.\<close>

datatype block =
    Header string
  | Divider
  | Section string "element option"
  | SectionFields "string list"
  | Actions "element list"
  | Input element string bool

fun enc_block :: "block \<Rightarrow> pyval" where
  "enc_block (Header t) = PDict [(''type'', PStr ''header''), (''text'', plain_text_object (PStr t))]"
| "enc_block Divider = PDict [(''type'', PStr ''divider'')]"
| "enc_block (Section t a) =
     PDict ([(''type'', PStr ''section''), (''text'', mrkdwn_object (PStr t))] @
            opt_enc ''accessory'' enc_element a)"
| "enc_block (SectionFields fs) =
     PDict [(''type'', PStr ''section''), (''fields'', PList (map (\<lambda>f. mrkdwn_object (PStr f)) fs))]"
| "enc_block (Actions es) =
     PDict [(''type'', PStr ''actions''), (''elements'', PList (map enc_element es))]"
| "enc_block (Input e l opt) =
     PDict ([(''type'', PStr ''input''), (''element'', enc_element e)] @
            (if opt then [(''optional'', PBool True)] else []) @
            [(''label'', plain_text_object (PStr l))])"

text \<open>The library call a block stands for.\<close>

fun build_block :: "block \<Rightarrow> pyval result" where
  "build_block (Header t) = Inr (header (PStr t))"
| "build_block Divider = Inr divider"
| "build_block (Section t None) = section_block [(''section_text'', PStr t)]"
| "build_block (Section t (Some e)) = section_block (element_kwargs e @ [(''section_text'', PStr t)])"
| "build_block (SectionFields fs) =
     section_block [(''section_text'', PStr []), (''type'', PStr ''fields''),
                    (''fields_list'', PList (map PStr fs))]"
| "build_block (Actions es) =
     bindE (mapE (\<lambda>e. element_builder e (element_kwargs e)) es) (\<lambda>xs. Inr (actions (PList xs)))"
| "build_block (Input e l opt) =
     input_type (element_kwargs e @ [(''label'', PStr l)] @
                 (if opt then [(''optional'', PBool True)] else []))"

fun block_valid :: "block \<Rightarrow> bool" where
  "block_valid (Section _ (Some e)) = (accessory_element e \<and> element_valid e)"
| "block_valid (Actions es) = list_all element_valid es"
| "block_valid (Input e _ _) = (input_element e \<and> element_valid e)"
| "block_valid _ = True"

text \<open>Views (specification section 3): a modal or home view, its title, its
  blocks and the optional submit and close labels.  \<open>build_view\<close> assembles it
  as \<open>views.py\<close> does, as the dict display of the fragments
  \<open>view(...)\<close>, \<open>blocks(...)\<close>, \<open>submit(...)\<close>, \<open>close(...)\<close>.\<close>

datatype view_kind = Modal | Home

fun kind_str :: "view_kind \<Rightarrow> string" where
  "kind_str Modal = ''modal''"
| "kind_str Home = ''home''"

datatype view_spec = ViewSpec view_kind string "block list" "string option" "string option"

fun enc_view :: "view_spec \<Rightarrow> pyval" where
  "enc_view (ViewSpec k t bs s c) =
     PDict ([(''type'', PStr (kind_str k)), (''title'', plain_text_object (PStr t)),
             (''blocks'', PList (map enc_block bs))] @
            opt_enc ''submit'' (\<lambda>x. plain_text_object (PStr x)) s @
            opt_enc ''close'' (\<lambda>x. plain_text_object (PStr x)) c)"

definition opt_fragment :: "(pyval \<Rightarrow> pyval) \<Rightarrow> string option \<Rightarrow> pdict list result" where
  "opt_fragment f x = (case x of None \<Rightarrow> Inr [] | Some s \<Rightarrow> bindE (as_mapping (f (PStr s))) (\<lambda>d. Inr [d]))"

fun build_view :: "view_spec \<Rightarrow> pyval result" where
  "build_view (ViewSpec k t bs s c) =
     bindE (view [(''type'', PStr (kind_str k)), (''text'', PStr t)]) (\<lambda>v.
     bindE (as_mapping v) (\<lambda>d1.
     bindE (mapE build_block bs) (\<lambda>xs.
     bindE (as_mapping (blocks (PList xs))) (\<lambda>d2.
     bindE (opt_fragment submit s) (\<lambda>d3.
     bindE (opt_fragment close c) (\<lambda>d4.
       Inr (PDict (dict_unpack ([d1, d2] @ d3 @ d4)))))))))"

text \<open>Every keyword an element builder reads.\<close>

definition element_keywords :: "string list" where
  "element_keywords =
     [''type'', ''text'', ''value'', ''action_id'', ''url'', ''confirm_title'', ''confirm_text'',
      ''confirm_approve_text'', ''confirm_deny_text'', ''placeholder'', ''multiline'', ''options'',
      ''initial_convo'', ''initial_user'', ''initial_channel'', ''initial_date'', ''initial_time'',
      ''image_url'', ''alt_text'', ''title'']"

section \<open>Lemmas\<close>

lemma sel_tag_case: "sel_tag k s = (case k of Single \<Rightarrow> s @ ''_select'' | Multi \<Rightarrow> ''multi_'' @ s @ ''_select'')"
  by (cases k) simp_all

lemma mapE_option_record_strs:
  "mapE option_record
     (map (\<lambda>(t, d, v). PDict [(''text'', PStr t), (''description'', PStr d), (''value'', PStr v)]) rs) =
   Inr (map (\<lambda>(t, d, v). PDict [(''text'', mrkdwn_object (PStr t)),
                                 (''description'', mrkdwn_object (PStr d)), (''value'', PStr v)]) rs)"
  by (induction rs) (auto simp: option_record_def)

lemma option_items_opts: "option_items (opts_arg os) = Inr (enc_opts os)"
proof (cases os)
  case (StrOpts s ss)
  then show ?thesis by (simp add: option_items_def mapE_Inr_map del: mapE.simps)
next
  case (RecOpts r rs)
  then show ?thesis using mapE_option_record_strs [of "r # rs"]
    by (cases r) (simp add: option_items_def del: mapE.simps)
qed

lemma mapE_pointwise: "(\<And>x. x \<in> set xs \<Longrightarrow> f x = Inr (g x)) \<Longrightarrow> mapE f xs = Inr (map g xs)"
  by (induction xs) auto

lemmas element_defs = button_def plain_text_input_def static_select_def conversations_select_def
  users_select_def channels_select_def datepicker_def timepicker_def checkboxes_def
  radio_buttons_def overflow_def image_def

lemmas kw_eval = kw_sub_def kw_get_def add_if_given_def opt_enc_def dict_unpack_def option_items_opts

text \<open>Each builder reads only the keywords of \<open>element_keywords\<close>.\<close>

lemma element_builder_local:
  assumes "\<And>k. k \<in> set element_keywords \<Longrightarrow> map_of kw k = map_of kw' k"
  shows "element_builder e kw = element_builder e kw'"
  by (cases e) (simp_all add: assms element_keywords_def element_defs kw_sub_def kw_get_def
      add_if_given_def confirm_given_def confirm_def cong: if_cong)

lemma element_builder_extra:
  assumes "list_all (\<lambda>kv. fst kv \<notin> set element_keywords) extra"
  shows "element_builder e (kw @ extra) = element_builder e kw"
proof (rule element_builder_local)
  fix k assume "k \<in> set element_keywords"
  with assms have "map_of extra k = None"
    by (auto simp: list_all_iff map_of_eq_None_iff)
  then show "map_of (kw @ extra) k = map_of kw k"
    by (simp add: map_add_def split: option.splits)
qed

lemma element_builds:
  "element_valid e \<Longrightarrow> element_builder e (element_kwargs e) = Inr (enc_element e)"
proof (induction e)
  case (Button t v a u c)
  then show ?case by (cases u; cases c rule: confirm_args.cases)
    (simp_all add: button_def kw_eval confirm_given_def confirm_def cong: if_cong)
next
  case (PlainTextInput a p m)
  then show ?case by (cases p; cases m) (simp_all add: plain_text_input_def kw_eval)
next
  case (StaticSelect k os a p)
  then show ?case by (cases p; cases k) (simp_all add: static_select_def kw_eval)
next
  case (ConversationsSelect k a p i)
  then show ?case by (cases p; cases i; cases k) (simp_all add: conversations_select_def kw_eval)
next
  case (UsersSelect k a p i)
  then show ?case by (cases p; cases i; cases k) (simp_all add: users_select_def kw_eval)
next
  case (ChannelsSelect k a p i)
  then show ?case by (cases p; cases i; cases k) (simp_all add: channels_select_def kw_eval)
next
  case (DatePicker a p i)
  then show ?case by (cases p; cases i) (simp_all add: datepicker_def kw_eval)
next
  case (TimePicker a p i)
  then show ?case by (cases p; cases i) (simp_all add: timepicker_def kw_eval)
next
  case (Image url alt t)
  then show ?case by (cases t) (simp_all add: image_def kw_eval)
qed (simp_all add: checkboxes_def radio_buttons_def overflow_def kw_eval)

lemma element_kwargs_type: "map_of (element_kwargs e) ''type'' = Some (PStr (element_tag e))"
  by (cases e) simp_all

lemma element_kwargs_keys: "set (map fst (element_kwargs e)) \<subseteq> set element_keywords"
proof (cases e)
  case (Button t v a u c)
  then show ?thesis
    by (cases u; cases c rule: confirm_args.cases) (simp_all add: opt_enc_def element_keywords_def)
qed (auto simp: opt_enc_def element_keywords_def split: option.splits)

lemma map_of_element_kwargs_other:
  "k \<notin> set element_keywords \<Longrightarrow> map_of (element_kwargs e) k = None"
  using element_kwargs_keys [of e] by (auto simp: map_of_eq_None_iff)

lemma accessory_dispatch:
  "accessory_element e \<Longrightarrow> dispatch accessory_table (PStr (element_tag e)) = Some (element_builder e)"
  by (cases e) (simp_all add: accessory_table_def sel_tag_case split: sel_kind.split)

lemma input_dispatch_element:
  "input_element e \<Longrightarrow>
     dispatch input_table (PStr (element_tag e)) = Some (element_builder e) \<or>
     (element_builder e = users_select \<and>
      (PStr (element_tag e) = PStr ''users_select'' \<or> PStr (element_tag e) = PStr ''multi_users_select''))"
  by (cases e) (simp_all add: input_table_def sel_tag_case split: sel_kind.split)

lemma map_of_kwargs_extra_in:
  "k \<in> set element_keywords \<Longrightarrow> list_all (\<lambda>kv. fst kv \<notin> set element_keywords) extra \<Longrightarrow>
   map_of (element_kwargs e @ extra) k = map_of (element_kwargs e) k"
proof -
  assume "k \<in> set element_keywords" and "list_all (\<lambda>kv. fst kv \<notin> set element_keywords) extra"
  then have "map_of extra k = None" by (auto simp: list_all_iff map_of_eq_None_iff)
  then show ?thesis by (simp add: map_add_def split: option.splits)
qed

lemma map_of_kwargs_extra_out:
  "k \<notin> set element_keywords \<Longrightarrow> map_of (element_kwargs e @ extra) k = map_of extra k"
  using map_of_element_kwargs_other [of k e] by (simp add: map_add_def)

lemmas map_of_kwargs_extra = map_of_kwargs_extra_in map_of_kwargs_extra_out

lemma block_builds: "block_valid b \<Longrightarrow> build_block b = Inr (enc_block b)"
proof (induction b)
  case (Section t a)
  show ?case
  proof (cases a)
    case None
    then show ?thesis by (simp add: section_block_def kw_sub_def kw_get_def opt_enc_def Let_def)
  next
    case (Some e)
    let ?extra = "[(''section_text'', PStr t)]"
    from Section Some have acc: "accessory_element e" and v: "element_valid e" by simp_all
    have extra: "list_all (\<lambda>kv. fst kv \<notin> set element_keywords) ?extra"
      by (simp add: element_keywords_def)
    have el: "element_builder e (element_kwargs e @ ?extra) = Inr (enc_element e)"
      using element_builder_extra [OF extra] element_builds [OF v] by simp
    show ?thesis
      using Some el accessory_dispatch [OF acc]
      by (simp add: section_block_table kw_sub_def kw_get_def map_of_kwargs_extra
                    element_kwargs_type opt_enc_def element_keywords_def del: map_of_append)
  qed
next
  case (SectionFields fs)
  then show ?case by (simp add: section_block_def kw_sub_def kw_get_def Let_def mapE_Inr_map del: mapE.simps)
next
  case (Actions es)
  then have "mapE (\<lambda>e. element_builder e (element_kwargs e)) es = Inr (map enc_element es)"
    by (intro mapE_pointwise element_builds) (simp add: list_all_iff)
  then show ?case by (simp add: actions_def)
next
  case (Input e l opt)
  let ?extra = "[(''label'', PStr l)] @ (if opt then [(''optional'', PBool True)] else [])"
  from Input have inp: "input_element e" and v: "element_valid e" by simp_all
  have extra: "list_all (\<lambda>kv. fst kv \<notin> set element_keywords) ?extra"
    by (simp add: element_keywords_def)
  have el: "element_builder e (element_kwargs e @ ?extra) = Inr (enc_element e)"
    using element_builder_extra [OF extra] element_builds [OF v] by simp
  have ty: "map_of (element_kwargs e @ ?extra) ''type'' = Some (PStr (element_tag e))"
    by (simp add: map_of_kwargs_extra element_kwargs_type element_keywords_def del: map_of_append)
  show ?case
    using input_type_element [OF ty input_dispatch_element [OF inp]] el
    by (cases opt) (simp_all add: kw_sub_def kw_get_def map_of_kwargs_extra element_keywords_def
                       del: map_of_append)
qed (simp_all add: header_def divider_def)


lemma enc_opts_inj: "enc_opts o1 = enc_opts o2 \<Longrightarrow> o1 = o2"
  by (cases o1; cases o2)
     (auto elim!: list.inj_map_strong [rotated] simp: mrkdwn_object_def split: prod.splits)

lemma sel_tag_inj [simp]: "sel_tag k s = sel_tag k' s \<longleftrightarrow> k = k'"
  by (cases k; cases k') simp_all

lemma enc_confirm_inj: "enc_confirm c1 = enc_confirm c2 \<Longrightarrow> c1 = c2"
  by (cases c1; cases c2) simp

lemma enc_element_inj: "enc_element e1 = enc_element e2 \<Longrightarrow> e1 = e2"
  by (cases e1; cases e2) (auto simp: opt_enc_def plain_text_object_def sel_tag_case dest: enc_opts_inj enc_confirm_inj
           split: option.splits if_splits sel_kind.split_asm)


lemma opt_fragment_Some:
  "opt_fragment f (Some x) = bindE (as_mapping (f (PStr x))) (\<lambda>d. Inr [d])"
  by (simp add: opt_fragment_def)

lemma view_builds:
  assumes "list_all block_valid bs"
  shows "build_view (ViewSpec k t bs s c) = Inr (enc_view (ViewSpec k t bs s c))"
proof -
  from assms have "mapE build_block bs = Inr (map enc_block bs)"
    by (intro mapE_pointwise block_builds) (simp add: list_all_iff)
  then show ?thesis
    by (cases s; cases c)
       (simp_all add: view_def kw_sub_def blocks_def submit_def close_def opt_fragment_def
                      opt_enc_def dict_unpack_def plain_text_object_def)
qed

text \<open>C21: Refinement of the elements: for every abstract element whose optional
  strings are non-empty, the builder of its kind, called with the element's
  keyword arguments and any further keywords no element builder reads, returns
  exactly the element's payload.\<close>

theorem element_refinement:
  assumes "element_valid e" and "list_all (\<lambda>kv. fst kv \<notin> set element_keywords) extra"
  shows "element_builder e (element_kwargs e @ extra) = Inr (enc_element e)"
  using element_builder_extra [OF assms(2)] element_builds [OF assms(1)] by simp

theorem element_refinement_witness:
  "element_valid (DatePicker ''d1'' (Some ''Pick'') None) \<and>
   list_all (\<lambda>kv. fst kv \<notin> set element_keywords) [(''label'', PStr ''Date'')] \<and>
   datepicker [(''type'', PStr ''datepicker''), (''action_id'', PStr ''d1''),
               (''placeholder'', PStr ''Pick''), (''label'', PStr ''Date'')] =
     Inr (PDict [(''type'', PStr ''datepicker''), (''action_id'', PStr ''d1''),
                 (''placeholder'', plain_text_object (PStr ''Pick''))])"
proof -
  have v: "element_valid (DatePicker ''d1'' (Some ''Pick'') None)" by simp
  have x: "list_all (\<lambda>kv. fst kv \<notin> set element_keywords) [(''label'', PStr ''Date'')]"
    by (simp add: element_keywords_def)
  from element_refinement [OF v x] v x show ?thesis by (simp add: opt_enc_def)
qed

text \<open>C22: Refinement of whole views: the dict display of the fragments
  \<open>view\<close>, \<open>blocks\<close>, \<open>submit\<close> and \<open>close\<close> over the blocks the
  library builds for valid abstract blocks is exactly the view's payload; the
  fragments have disjoint keys, so the display never overwrites one of them.\<close>

theorem view_refinement:
  assumes "list_all block_valid bs"
  shows "build_view (ViewSpec k t bs s c) = Inr (enc_view (ViewSpec k t bs s c))"
  using view_builds [OF assms] .

theorem view_refinement_witness:
  "list_all block_valid [Actions [Button ''My Button'' ''my_button'' ''button_1'' None None]] \<and>
   build_view (ViewSpec Modal ''My Test App'' [Actions [Button ''My Button'' ''my_button'' ''button_1'' None None]]
                 (Some ''Submit'') None) =
     Inr (PDict [(''type'', PStr ''modal''), (''title'', plain_text_object (PStr ''My Test App'')),
                 (''blocks'', PList [PDict [(''type'', PStr ''actions''), (''elements'', PList
                    [PDict [(''type'', PStr ''button''), (''text'', plain_text_object (PStr ''My Button'')),
                            (''value'', PStr ''my_button''), (''action_id'', PStr ''button_1'')]])]]),
                 (''submit'', plain_text_object (PStr ''Submit''))])"
proof -
  have v: "list_all block_valid [Actions [Button ''My Button'' ''my_button'' ''button_1'' None None]]"
    by simp
  from view_refinement [OF v, of Modal "''My Test App''" "Some ''Submit''" None] v show ?thesis
    by (simp add: opt_enc_def)
qed

text \<open>C23: The builders lose no information: two valid abstract elements whose
  builders return the same payload are the same element (the conversations and the
  users select both write \<open>initial_user\<close>, but their type tags still differ).\<close>

theorem element_builders_injective:
  assumes "element_valid e1" and "element_valid e2"
    and "element_builder e1 (element_kwargs e1) = element_builder e2 (element_kwargs e2)"
  shows "e1 = e2"
  using assms by (simp add: element_builds enc_element_inj)

theorem element_builders_injective_witness:
  "element_valid (UsersSelect Single ''u'' None (Some ''U1'')) \<and>
   element_valid (ConversationsSelect Single ''u'' None (Some ''U1'')) \<and>
   UsersSelect Single ''u'' None (Some ''U1'') \<noteq> ConversationsSelect Single ''u'' None (Some ''U1'') \<and>
   users_select (element_kwargs (UsersSelect Single ''u'' None (Some ''U1''))) \<noteq>
     conversations_select (element_kwargs (ConversationsSelect Single ''u'' None (Some ''U1'')))"
proof -
  have v1: "element_valid (UsersSelect Single ''u'' None (Some ''U1''))" by simp
  have v2: "element_valid (ConversationsSelect Single ''u'' None (Some ''U1''))" by simp
  have ne: "UsersSelect Single ''u'' None (Some ''U1'') \<noteq> ConversationsSelect Single ''u'' None (Some ''U1'')"
    by simp
  have "element_builder (UsersSelect Single ''u'' None (Some ''U1''))
          (element_kwargs (UsersSelect Single ''u'' None (Some ''U1''))) \<noteq>
        element_builder (ConversationsSelect Single ''u'' None (Some ''U1''))
          (element_kwargs (ConversationsSelect Single ''u'' None (Some ''U1'')))"
    using element_builders_injective [OF v1 v2] ne by blast
  with v1 v2 ne show ?thesis by simp
qed

text \<open>C24: An optional keyword given as the empty string is dropped as if it had
  not been passed (the code tests it for truth), so the validity hypothesis of the
  refinement is needed: a button with \<open>url=''\<close> has no \<open>url\<close> key.\<close>

theorem empty_optional_dropped:
  "button (element_kwargs (Button t v a (Some []) c)) = button (element_kwargs (Button t v a None c))"
  by (cases c rule: confirm_args.cases) (simp_all add: button_def kw_eval confirm_given_def confirm_def cong: if_cong)


text \<open>C30: Every element but the image requires an \<open>action_id\<close>: leaving it out
  of the keyword arguments of any typed element makes the builder raise
  \<open>KeyError('action_id')\<close>, whatever the other fields (the other required
  keywords are present, and each builder reads no required keyword after it that
  could fail first).\<close>

theorem action_id_required:
  assumes "\<not> (\<exists>u a t. e = Image u a t)"
  shows "element_builder e (filter (\<lambda>kv. fst kv \<noteq> ''action_id'') (element_kwargs e)) =
           Inl (KeyError (PStr ''action_id''))"
proof (cases e)
  case (Button t v a u c)
  then show ?thesis
    by (cases c rule: confirm_args.cases) (simp_all add: button_def kw_sub_def opt_enc_def split: option.split)
qed (use assms in \<open>simp_all add: element_defs kw_sub_def opt_enc_def option_items_opts split: option.split\<close>)

theorem action_id_required_witness:
  "\<not> (\<exists>u a t. RadioButtons (StrOpts ''a'' []) ''r'' = Image u a t) \<and>
   radio_buttons [(''type'', PStr ''radio_buttons''), (''options'', PList [PStr ''a''])] =
     Inl (KeyError (PStr ''action_id''))"
  using action_id_required [of "RadioButtons (StrOpts ''a'' []) ''r''"] by simp

end
