(* ===== verification/Py_Repr.thy ===== *)
theory Py_Repr
  imports Py_Prelude
begin

text \<open>
  What \<open>print\<close> does with a value, for the one statement of the repository
  that has an effect: \<open>print(first_view())\<close> at the end of \<open>src/views.py\<close>.
  \<open>print(v)\<close> writes \<open>str(v)\<close> and a newline to standard output, modelled as
  the list of lines written so far (\<open>world\<close>).  \<open>str\<close> of a string is the
  string itself; of every other value it is \<open>repr\<close>: \<open>None\<close>,
  \<open>True\<close>/\<open>False\<close>, decimal integers, lists \<open>[a, b]\<close>, dicts
  \<open>{k: v}\<close>, and string literals, which \<open>repr\<close> quotes with \<open>'\<close>
  unless the string contains \<open>'\<close> and no \<open>"\<close>, escaping the backslash,
  the chosen quote, tab, newline, carriage return and every non-printable character
  (as \<open>\xNN\<close>).  Characters are Isabelle's 8-bit \<open>char\<close>, i.e. the code
  points below 256, for which CPython's printability is: 32--126 and 161--255
  except 173.  The program never reaches the \<open>print\<close> (its argument raises
  first, see \<open>Views\<close>); the theory is there so that the module's statement is
  modelled as written.
\<close>

section \<open>Definitions\<close>

definition bslash :: char where "bslash = CHR 0x5C"

definition hex_digit :: "nat \<Rightarrow> char" where
  "hex_digit n = (if n < 10 then char_of (48 + n) else char_of (87 + n))"

definition py_printable :: "char \<Rightarrow> bool" where
  "py_printable c = (let n = of_char c :: nat in (32 \<le> n \<and> n < 127) \<or> (161 \<le> n \<and> n \<noteq> 173))"

text \<open>One character inside a literal quoted with \<open>q\<close>.\<close>

definition repr_char :: "char \<Rightarrow> char \<Rightarrow> string" where
  "repr_char q c =
     (if c = q \<or> c = bslash then [bslash, c]
      else if c = CHR 0x09 then [bslash, CHR ''t'']
      else if c = CHR 0x0A then [bslash, CHR ''n'']
      else if c = CHR 0x0D then [bslash, CHR ''r'']
      else if py_printable c then [c]
      else [bslash, CHR ''x'', hex_digit (of_char c div 16), hex_digit (of_char c mod 16)])"

definition repr_quote :: "string \<Rightarrow> char" where
  "repr_quote s = (if CHR 0x27 \<in> set s \<and> CHR 0x22 \<notin> set s then CHR 0x22 else CHR 0x27)"

definition repr_str :: "string \<Rightarrow> string" where
  "repr_str s = (let q = repr_quote s in q # concat (map (repr_char q) s) @ [q])"

text \<open>Decimal digits of a natural number; the recursion is on \<open>n div 10\<close>.\<close>

function dec_digits :: "nat \<Rightarrow> string" where
  "dec_digits n = (if n < 10 then [char_of (48 + n)] else dec_digits (n div 10) @ [char_of (48 + n mod 10)])"
  by auto
termination by (relation "measure id") auto

definition repr_int :: "int \<Rightarrow> string" where
  "repr_int i = (if i < 0 then CHR ''-'' # dec_digits (nat (- i)) else dec_digits (nat i))"

fun sep_join :: "string \<Rightarrow> string list \<Rightarrow> string" where
  "sep_join sep [] = []"
| "sep_join sep [x] = x"
| "sep_join sep (x # y # xs) = x @ sep @ sep_join sep (y # xs)"

fun py_repr :: "pyval \<Rightarrow> string" where
  "py_repr PNone = ''None''"
| "py_repr (PBool b) = (if b then ''True'' else ''False'')"
| "py_repr (PInt i) = repr_int i"
| "py_repr (PStr s) = repr_str s"
| "py_repr (PList xs) = CHR ''['' # sep_join '', '' (map py_repr xs) @ '']''"
| "py_repr (PDict d) =
     CHR ''{'' # sep_join '', '' (map (\<lambda>kv. repr_str (fst kv) @ '': '' @ py_repr (snd kv)) d) @ ''}''"

definition py_str :: "pyval \<Rightarrow> string" where
  "py_str v = (case v of PStr s \<Rightarrow> s | _ \<Rightarrow> py_repr v)"

record world = stdout :: "string list"

definition py_print :: "pyval \<Rightarrow> world \<Rightarrow> world" where
  "py_print v w = w\<lparr>stdout := stdout w @ [py_str v]\<rparr>"

end
