(* ===== verification/Views.thy ===== *)
theory Views
  imports Elements Py_Repr
begin

text \<open>
  \<open>src/views.py\<close>: two example views composed from the builders.
  \<open>blocks_schema\<close> merges a view shell and a blocks fragment,
  \<open>first_view\<close> adds a submit button to one actions block holding one button,
  \<open>second_view\<close> adds submit and close to a list of two text objects, and the
  module prints \<open>first_view()\<close> when run or imported (\<open>views_main\<close>, on the
  standard output of \<open>Py_Repr\<close>).  \<open>blocks_schema\<close> calls \<open>modal.view('modal', 'My Test App')\<close>
  with positional arguments, but \<open>view\<close> only takes \<open>**kwargs\<close>: the call
  raises TypeError (\<open>py_call_kw\<close>), and so does every view built on it.
\<close>

section \<open>Definitions\<close>

definition blocks_schema :: "pyval \<Rightarrow> pyval result" where
  "blocks_schema blocks_list =
     bindE (py_call_kw [PStr ''modal'', PStr ''My Test App''] [] view) (\<lambda>v.
     bindE (as_mapping v) (\<lambda>d1.
     bindE (as_mapping (blocks blocks_list)) (\<lambda>d2.
       Inr (PDict (dict_unpack [d1, d2])))))"

definition first_view :: "pyval result" where
  "first_view =
     bindE (py_call_kw [] [(''text'', PStr ''My Button''), (''value'', PStr ''my_button''),
                           (''action_id'', PStr ''button_1'')] button) (\<lambda>b.
       let blocks_list = PList [actions (PList [b])]
       in bindE (blocks_schema blocks_list) (\<lambda>s.
          bindE (as_mapping s) (\<lambda>d1.
          bindE (as_mapping (submit (PStr ''Submit''))) (\<lambda>d2.
            Inr (PDict (dict_unpack [d1, d2]))))))"

definition second_view :: "pyval result" where
  "second_view =
     (let blocks_list = PList [plain_text_object (PStr ''first''), plain_text_object (PStr ''second'')]
      in bindE (blocks_schema blocks_list) (\<lambda>s.
         bindE (as_mapping s) (\<lambda>d1.
         bindE (as_mapping (submit (PStr ''Submit''))) (\<lambda>d2.
         bindE (as_mapping (close (PStr ''Quit''))) (\<lambda>d3.
           Inr (PDict (dict_unpack [d1, d2, d3])))))))"

text \<open>The module's top-level statement \<open>print(first_view())\<close>: an exception
  propagates before anything is written.\<close>

definition views_main :: "world \<Rightarrow> unit result \<times> world" where
  "views_main w = (case first_view of Inl e \<Rightarrow> (Inl e, w) | Inr v \<Rightarrow> (Inr (), py_print v w))"

section \<open>Lemmas\<close>

lemma blocks_schema_TypeError: "blocks_schema blocks_list = Inl TypeError"
  by (simp add: blocks_schema_def py_call_kw_def)

lemma first_view_TypeError: "first_view = Inl TypeError"
  by (simp add: first_view_def blocks_schema_TypeError button_Inr py_call_kw_def)

text \<open>C8: The example views never build: \<open>blocks_schema\<close> raises TypeError for
  every block list, because it passes \<open>'modal'\<close> and \<open>'My Test App'\<close>
  positionally to the keyword-only \<open>view\<close>; \<open>first_view\<close> and
  \<open>second_view\<close> therefore raise TypeError too (and importing \<open>views.py\<close>,
  which prints \<open>first_view()\<close>, fails).\<close>

theorem views_raise_type_error:
  "blocks_schema blocks_list = Inl TypeError \<and> first_view = Inl TypeError \<and>
   second_view = Inl TypeError"
  by (simp add: first_view_TypeError second_view_def blocks_schema_TypeError)

end
