(* ===== verification/Dict_Merge.thy ===== *)
theory Dict_Merge
  imports Py_Prelude
begin

text \<open>
  The merge the specification asks for in place of the dict display
  \<open>{**d1, **d2, ...}\<close> (its sections 4.1 and 9): the concatenation of the
  operands, failing with \<open>SchemaKeyCollision\<close> on the first repeated key,
  where the code's display (\<open>dict_unpack\<close>) silently keeps the last value.  The
  root theory shows that the fragments a view is assembled from never collide, so
  on them the two merges agree.
\<close>

section \<open>Definitions\<close>

datatype merge_error = SchemaKeyCollision string

text \<open>The first key that occurs a second time.\<close>

fun dup_key :: "'a list \<Rightarrow> 'a list \<Rightarrow> 'a option" where
  "dup_key seen [] = None"
| "dup_key seen (k # ks) = (if k \<in> set seen then Some k else dup_key (seen @ [k]) ks)"

definition merge_checked :: "pdict list \<Rightarrow> merge_error + pdict" where
  "merge_checked ds =
     (case dup_key [] (map fst (concat ds)) of
        None \<Rightarrow> Inr (concat ds)
      | Some k \<Rightarrow> Inl (SchemaKeyCollision k))"

end
