(* ===== verification/Spec2Isabelle.thy ===== *)
theory Spec2Isabelle
  imports Abstract_Model Views Dict_Merge
begin

text \<open>
  A verification development for the Slack-App-Library block builder
  (\<open>src/modal.py\<close>, \<open>src/views.py\<close>).

  \<^bold>\<open>The program.\<close> \<open>modal.py\<close> is a library of pure builder functions,
  one per Slack block-kit object, each returning a Python dict: text objects,
  the view shell and its fragments, a confirmation dialog, layout blocks
  (header, divider, section, actions, input), interactive elements (button,
  selects, pickers, checkboxes, radio buttons, overflow, image) and the helper
  \<open>option_items\<close>.  Most take \<open>**kwargs\<close>, read required arguments with
  \<open>kwargs[k]\<close> (KeyError when missing) and optional ones with
  \<open>kwargs.get(k)\<close>, and grow their result with dict displays
  \<open>{**schema, **{key: value}}\<close>.  \<open>section\<close> and \<open>input_type\<close>
  dispatch on the string \<open>kwargs['type']\<close> to an element builder, passing the
  same keyword arguments on.  \<open>views.py\<close> composes two example views.
  There is no state, no I/O and no loop beyond list comprehensions: the hard
  parts are the keyword-driven dispatch, the additive optional keys, the shape
  detection of \<open>option_items\<close>, and which Python exception each input raises.

  \<^bold>\<open>The library.\<close>
  \<^item> \<open>Py_Prelude\<close>: the Python runtime the code relies on.  Values are the
    datatype \<open>pyval\<close> (dicts are ordered association lists), exceptions the
    datatype \<open>py_error\<close>, a raising computation has type
    \<open>'a result = py_error + 'a\<close> sequenced by \<open>bindE\<close>; \<open>kw_sub\<close>,
    \<open>kw_get\<close>, \<open>py_truthy\<close>, \<open>py_index0\<close>, \<open>py_iter\<close>,
    \<open>py_getkey\<close> are subscription, \<open>.get\<close>, truth, \<open>[0]\<close>, iteration
    and string indexing; \<open>dict_unpack\<close> is the dict display with Python's
    overwrite-in-place semantics; \<open>py_call_kw\<close> is a call of a
    \<open>**kwargs\<close>-only function.  \<open>pv_nonull\<close> (no \<open>None\<close> at any depth) is the
    invariant of documents that the specification's additive-only policy asks for.
    Its lemmas show that a display of key-disjoint operands is concatenation.
  \<^item> \<open>Text_Objects\<close>: \<open>plain_text_object\<close>, \<open>mrkdwn_object\<close>,
    \<open>view\<close>, \<open>submit\<close>, \<open>close\<close>, \<open>header\<close>, \<open>divider\<close>,
    \<open>confirm\<close>, \<open>blocks\<close>, \<open>actions\<close> (\<open>modal.py\<close> lines 5--94,
    137--143).
  \<^item> \<open>Option_Items\<close>: \<open>option_items\<close> (lines 185--193), its string and
    record modes and its errors.
  \<^item> \<open>Elements\<close>: the twelve element builders (lines 196--371), with the
    optional-key idiom as \<open>add_if_given\<close>; button's exact shape, its
    all-or-nothing confirmation dialog and its errors.

  \<^item> \<open>Blocks\<close>: \<open>section_block\<close> (\<open>section\<close>, lines 97--134; renamed
    because \<open>section\<close> is an Isar keyword) and \<open>input_type\<close> (lines
    146--182), each an \<open>if\<close>/\<open>elif\<close> chain on \<open>kwargs['type']\<close>.  The
    specification's discriminator tables are \<open>accessory_table\<close> and
    \<open>input_table\<close>, looked up by \<open>dispatch\<close>; the lemmas show that each chain
    is that table lookup, what happens to the fields mode, to an unknown
    discriminator and to an input block without element, and which error is raised
    first.
  \<^item> \<open>Dict_Merge\<close>: the specification's collision-checked merge
    (\<open>merge_checked\<close>, failing with \<open>SchemaKeyCollision\<close>), which the
    specification asks for in place of the code's silently overwriting display.
  \<^item> \<open>Py_Repr\<close>: \<open>print\<close> on an explicit standard output (\<open>world\<close>,
    the list of lines written), with \<open>str\<close>/\<open>repr\<close> of values, so that the
    module statement of \<open>views.py\<close> is modelled as written; it is never reached.
  \<^item> \<open>Views\<close>: \<open>first_view\<close> and \<open>second_view\<close> of \<open>views.py\<close>,
    with \<open>view\<close> called positionally through \<open>py_call_kw\<close>, so both raise
    TypeError, and the module's \<open>print(first_view())\<close> (\<open>views_main\<close>),
    which raises before printing.
  \<^item> \<open>Abstract_Model\<close>: a typed model of the specification's data model
    (its section 3): datatypes \<open>element\<close>, \<open>block\<close>, \<open>view_spec\<close> with
    option lists and confirmation dialogs, their payloads \<open>enc_element\<close>,
    \<open>enc_block\<close>, \<open>enc_view\<close>, and the keyword arguments a caller passes
    for them (\<open>element_kwargs\<close>, \<open>build_block\<close>, \<open>build_view\<close>).  Its
    lemmas are the refinement: each element builder reads only the keywords of
    \<open>element_keywords\<close>, returns exactly the payload of a valid typed element,
    and loses no information; \<open>section\<close> and \<open>input_type\<close> embed it;
    and a view assembled from the fragments is exactly \<open>enc_view\<close>.  Validity
    asks the optional strings to be non-empty, because the code drops a falsy
    optional keyword.
  \<^item> This theory: the properties that span components: no keyword builder
    puts \<open>None\<close> into its result when its arguments hold none (the additive-only
    policy: an omitted optional field leaves no null placeholder), every
    interactive element keeps the caller's \<open>action_id\<close>, and the fragments of
    a view never collide, so the specification's checked merge accepts every view
    the library assembles.

  \<^bold>\<open>Bounds and fuel.\<close>  None are needed: the only iteration in the code is
  list comprehensions over the caller's lists, modelled by the structural
  recursion \<open>mapE\<close>, and every function of the model is total (the decimal
  printer \<open>dec_digits\<close> recurses on \<open>n div 10\<close>, with its termination
  proved by the measure \<open>n\<close>).

  \<^bold>\<open>Not modelled.\<close>  The
  Slack transport, authentication and rendering are outside the repository.
  Python keyword arguments are assumed to have distinct names, as Python
  guarantees; dict keys are strings, as every key the code writes is; characters
  are the code points below 256 (Isabelle's \<open>char\<close>), which covers every
  literal of the repository.  The \<open>import\<close> lines are not code to model.
\<close>


section \<open>Definitions\<close>

text \<open>Every builder of \<open>modal.py\<close> that takes \<open>**kwargs\<close>.\<close>

definition kw_builders :: "(kwargs \<Rightarrow> pyval result) list" where
  "kw_builders =
     [view, confirm, button, plain_text_input, static_select, conversations_select, users_select,
      channels_select, datepicker, timepicker, checkboxes, radio_buttons, overflow, image,
      section_block, input_type]"

section \<open>Properties across components\<close>

text \<open>C7: Additive-only policy (specification section 4.1): when no keyword
  argument holds \<open>None\<close> at any depth, no keyword builder's result holds
  \<open>None\<close> anywhere, so an omitted optional field never appears as a null
  placeholder: every optional key is guarded by the truth of \<open>kwargs.get(k)\<close>
  and every other value is read with \<open>kwargs[k]\<close>.\<close>

theorem builders_no_null:
  assumes "list_all (\<lambda>kv. pv_nonull (snd kv)) kw" and "f \<in> set kw_builders" and "f kw = Inr d"
  shows "pv_nonull d"
  using assms
  by (auto simp: kw_builders_def
           intro: pv_nonull_view pv_nonull_confirm pv_nonull_elements pv_nonull_section_block pv_nonull_input_type)

theorem builders_no_null_witness:
  "pv_nonull (PDict [(''type'', PStr ''modal''),
                 (''title'', plain_text_object (PStr ''My Test App''))])"
proof -
  have v: "view [(''type'', PStr ''modal''), (''text'', PStr ''My Test App'')] =
           Inr (PDict [(''type'', PStr ''modal''), (''title'', plain_text_object (PStr ''My Test App''))])"
    by (simp add: view_def kw_sub_def)
  show ?thesis
    by (rule builders_no_null [where f = view, OF _ _ v]) (simp_all add: kw_builders_def)
qed

text \<open>C18: Every interactive element a section or an input block can embed
  (every builder of the two discriminator tables but \<open>image\<close>) carries the
  caller's \<open>action_id\<close> unchanged.\<close>

theorem interactive_elements_action_id:
  assumes "f \<in> set (map snd accessory_table) \<union> set (map snd input_table)" and "f \<noteq> image"
    and "f kw = Inr e"
  shows "pv_field e ''action_id'' = map_of kw ''action_id''"
  using assms
  by (auto simp: accessory_table_def input_table_def intro: element_action_id)

theorem interactive_elements_action_id_witness:
  "pv_field (PDict [(''type'', PStr ''timepicker''), (''action_id'', PStr ''t'')]) ''action_id'' =
     Some (PStr ''t'')"
proof -
  have t: "timepicker [(''action_id'', PStr ''t'')] =
           Inr (PDict [(''type'', PStr ''timepicker''), (''action_id'', PStr ''t'')])"
    by (simp add: timepicker_def kw_sub_def kw_get_def add_if_given_def)
  have "timepicker \<noteq> image"
  proof
    assume "timepicker = image"
    then have "timepicker [] = image []" by simp
    then show False by (simp add: timepicker_def image_def kw_sub_def)
  qed
  then have "pv_field (PDict [(''type'', PStr ''timepicker''), (''action_id'', PStr ''t'')]) ''action_id'' =
        map_of [(''action_id'', PStr ''t'')] ''action_id''"
    by (intro interactive_elements_action_id [where f = timepicker, OF _ _ t])
       (simp_all add: input_table_def)
  then show ?thesis by simp
qed

text \<open>C29: The fragments a view is assembled from (\<open>view\<close>, \<open>blocks\<close>,
  \<open>submit\<close>, \<open>close\<close>, as in \<open>views.second_view\<close>) never share a key,
  whatever their arguments: the specification's collision-checked merge accepts
  them and returns what the code's dict display returns.\<close>

theorem view_fragments_disjoint:
  assumes "view kw = Inr (PDict d1)" and "blocks b = PDict d2" and "submit s = PDict d3"
    and "close c = PDict d4"
  shows "merge_checked [d1, d2, d3, d4] = Inr (dict_unpack [d1, d2, d3, d4])"
proof -
  from assms(1) obtain ty t where d1: "d1 = [(''type'', ty), (''title'', plain_text_object t)]"
    by (auto simp: view_def bindE_eq_Inr_iff)
  from assms(2-4) have "d2 = [(''blocks'', b)]" and "d3 = [(''submit'', plain_text_object s)]"
    and "d4 = [(''close'', plain_text_object c)]"
    by (simp_all add: blocks_def submit_def close_def)
  with d1 show ?thesis by (simp add: merge_checked_def dict_unpack_def)
qed

theorem view_fragments_disjoint_witness:
  "view [(''type'', PStr ''modal''), (''text'', PStr ''App'')] =
     Inr (PDict [(''type'', PStr ''modal''), (''title'', plain_text_object (PStr ''App''))]) \<and>
   merge_checked [[(''type'', PStr ''modal''), (''title'', plain_text_object (PStr ''App''))],
                  [(''blocks'', PList [])], [(''submit'', plain_text_object (PStr ''Submit''))],
                  [(''close'', plain_text_object (PStr ''Quit''))]] =
     Inr [(''type'', PStr ''modal''), (''title'', plain_text_object (PStr ''App'')),
          (''blocks'', PList []), (''submit'', plain_text_object (PStr ''Submit'')),
          (''close'', plain_text_object (PStr ''Quit''))]"
proof -
  have v: "view [(''type'', PStr ''modal''), (''text'', PStr ''App'')] =
     Inr (PDict [(''type'', PStr ''modal''), (''title'', plain_text_object (PStr ''App''))])"
    by (simp add: view_def kw_sub_def)
  have b: "blocks (PList []) = PDict [(''blocks'', PList [])]" by (simp add: blocks_def)
  have s: "submit (PStr ''Submit'') = PDict [(''submit'', plain_text_object (PStr ''Submit''))]"
    by (simp add: submit_def)
  have c: "close (PStr ''Quit'') = PDict [(''close'', plain_text_object (PStr ''Quit''))]"
    by (simp add: close_def)
  from view_fragments_disjoint [OF v b s c] v show ?thesis
    by (simp add: dict_unpack_def plain_text_object_def)
qed

end
